theory Spec2Isabelle
  imports Complex_Main "HOL-Library.Word"
begin

section \<open>The Node.js bridge of gzh-cli (bindings/nodejs/src/native/addon.cc)\<close>

text \<open>
  The addon exposes six callbacks to the host: createClient, destroyClient, bulkClone,
  listPlugins, executePlugin and health. Each one validates its arguments, converts them
  to the C records of the engine, makes one call into the engine and converts the answer
  back. The embedding below follows the C++ text function by function. What the code
  does beyond computing a value is explicit in a state, the \<open>world\<close>:
  \<^item> the C heap of the strings the bridge allocates with \<open>strdup\<close> and releases with \<open>free\<close>;
  \<^item> the JavaScript exception pending in the Node-API environment, if any;
  \<^item> a trace of the events a test with an instrumented engine would count: property
    reads, allocations, frees, every call into the engine with what it received;
  \<^item> the state of the engine, which the bridge never inspects.
  The engine is a parameter: a record of functions over its own state.
\<close>

subsection \<open>Host values\<close>

text \<open>
  A JavaScript number is a double: a finite value (a rational), or one of the three
  non-finite values. A JavaScript string is modelled by the bytes of its UTF-8 encoding,
  which is what \<open>Utf8Value()\<close> hands to the C++ code; it may contain the byte 0.
  An object is the list of the properties \<open>Has\<close> finds on it, in insertion order (an
  array or a function is an object too, with its own properties).
\<close>

datatype jsnumber = Finite rat | NaN | PosInfinity | NegInfinity

datatype napi_value =
    Undefined
  | Null
  | Boolean bool
  | Number jsnumber
  | String string
  | Object "(string \<times> napi_value) list"

fun IsNumber :: "napi_value \<Rightarrow> bool" where
  "IsNumber (Number n) = True"
| "IsNumber v = False"

fun IsString :: "napi_value \<Rightarrow> bool" where
  "IsString (String s) = True"
| "IsString v = False"

fun IsObject :: "napi_value \<Rightarrow> bool" where
  "IsObject (Object fs) = True"
| "IsObject v = False"

fun IsBoolean :: "napi_value \<Rightarrow> bool" where
  "IsBoolean (Boolean t) = True"
| "IsBoolean v = False"

fun properties :: "napi_value \<Rightarrow> (string \<times> napi_value) list" where
  "properties (Object fs) = fs"
| "properties v = []"

definition has_property :: "napi_value \<Rightarrow> string \<Rightarrow> bool" where
  "has_property obj k = (map_of (properties obj) k \<noteq> None)"

definition get_property :: "napi_value \<Rightarrow> string \<Rightarrow> napi_value" where
  "get_property obj k = (case map_of (properties obj) k of Some v \<Rightarrow> v | None \<Rightarrow> Undefined)"

subsection \<open>C integers and the number conversions of Node-API\<close>

type_synonym int32 = "32 word"
type_synonym int64 = "64 word"

definition trunc_toward_zero :: "rat \<Rightarrow> int" where
  "trunc_toward_zero x = (if x < 0 then \<lceil>x\<rceil> else \<lfloor>x\<rfloor>)"

text \<open>
  \<open>napi_get_value_int32\<close>: a non-finite number gives 0, a finite one is truncated towards
  zero and reduced modulo \<open>2 ^ 32\<close>. \<open>napi_get_value_int64\<close>: a non-finite number gives 0;
  outside the range of a 64-bit integer the result is taken as saturated (no property
  below depends on that range).
\<close>

fun ToInt32 :: "jsnumber \<Rightarrow> int32" where
  "ToInt32 (Finite x) = word_of_int (trunc_toward_zero x)"
| "ToInt32 n = 0"

fun ToInt64 :: "jsnumber \<Rightarrow> int64" where
  "ToInt64 (Finite x) =
     (let i = trunc_toward_zero x in
      if i < - (2 ^ 63) then word_of_int (- (2 ^ 63))
      else if 2 ^ 63 \<le> i then word_of_int (2 ^ 63 - 1)
      else word_of_int i)"
| "ToInt64 n = 0"

definition Number_New :: "int32 \<Rightarrow> napi_value" where
  "Number_New i = Number (Finite (of_int (sint i)))"

subsection \<open>The C records of the engine interface\<close>

text \<open>
  A \<open>char*\<close> field that the bridge fills is an address in the bridge's heap, or \<open>None\<close>
  for the null pointer. The strings of a result record live in the engine's memory; the
  bridge only reads them, so the record carries their contents (\<open>None\<close> for null).
\<close>

type_synonym addr = nat
type_synonym c_heap = "(addr \<times> string) list"

record gzh_client_config_t =
  timeout :: int64
  retry_count :: int32
  enable_plugins :: int32
  plugin_dir :: "addr option"
  log_level :: "addr option"
  log_file :: "addr option"

record gzh_bulk_clone_request_t =
  platforms_json :: "addr option"
  output_dir :: "addr option"
  concurrency :: int32
  strategy :: "addr option"
  include_private :: int32
  filters_json :: "addr option"

record gzh_result_t =
  success :: int32
  error_msg :: "string option"
  data_json :: "string option"

text \<open>A \<open>gzh_result_t*\<close>: null, or the address of a record in the engine's memory.\<close>

type_synonym result_ptr = "(addr \<times> gzh_result_t) option"

subsection \<open>Errors, events and the world\<close>

text \<open>
  node-addon-api is compiled in one of two ways. With \<open>NAPI_CPP_EXCEPTIONS\<close> a failing
  Node-API call throws a C++ exception, which leaves the callback at once. With
  \<open>NAPI_DISABLE_CPP_EXCEPTIONS\<close> it makes a JavaScript exception pending, returns a default
  value and the callback goes on. Which one holds is decided by the build file, not by
  \<open>addon.cc\<close>, so the build is a parameter of every callback.
\<close>

datatype build = NAPI_CPP_EXCEPTIONS | NAPI_DISABLE_CPP_EXCEPTIONS

datatype error =
    Cpp_exception string  \<comment> \<open>a \<open>Napi::Error\<close> propagating out of the callback\<close>
  | Fatal_error           \<comment> \<open>\<open>napi_fatal_error\<close>: the process aborts\<close>
  | Null_dereference      \<comment> \<open>a read through a null pointer: undefined behaviour\<close>

datatype event =
    Get_property string
  | Strdup addr string
  | Free addr
  | New_config
  | Delete_config
  | Call_client_create "gzh_client_config_t option" c_heap int32
  | Call_client_destroy int32
  | Call_bulk_clone int32 gzh_bulk_clone_request_t c_heap result_ptr
  | Call_list_plugins int32 result_ptr
  | Call_execute_plugin int32 string string string int32 result_ptr
  | Call_health int32 result_ptr
  | Call_free_result addr

record 'e world =
  heap :: c_heap
  pending :: "string option"
  trace :: "event list"
  engine_state :: 'e

record 'e engine =
  gzh_node_client_create :: "'e \<Rightarrow> c_heap \<Rightarrow> gzh_client_config_t option \<Rightarrow> int32 \<times> 'e"
  gzh_node_client_destroy :: "'e \<Rightarrow> int32 \<Rightarrow> 'e"
  gzh_node_bulk_clone :: "'e \<Rightarrow> c_heap \<Rightarrow> int32 \<Rightarrow> gzh_bulk_clone_request_t \<Rightarrow> result_ptr \<times> 'e"
  gzh_node_list_plugins :: "'e \<Rightarrow> int32 \<Rightarrow> result_ptr \<times> 'e"
  gzh_node_execute_plugin ::
    "'e \<Rightarrow> int32 \<Rightarrow> string \<Rightarrow> string \<Rightarrow> string \<Rightarrow> int32 \<Rightarrow> result_ptr \<times> 'e"
  gzh_node_health :: "'e \<Rightarrow> int32 \<Rightarrow> result_ptr \<times> 'e"
  gzh_node_free_result :: "'e \<Rightarrow> addr \<Rightarrow> 'e"

type_synonym ('e, 'a) op = "'e world \<Rightarrow> (error + 'a) \<times> 'e world"

definition ret :: "'a \<Rightarrow> ('e, 'a) op" where
  "ret x w = (Inr x, w)"

definition seq :: "('e, 'a) op \<Rightarrow> ('a \<Rightarrow> ('e, 'b) op) \<Rightarrow> ('e, 'b) op" where
  "seq m f w = (case m w of (Inl e, w') \<Rightarrow> (Inl e, w') | (Inr x, w') \<Rightarrow> f x w')"

definition emit :: "event \<Rightarrow> 'e world \<Rightarrow> 'e world" where
  "emit ev w = w\<lparr>trace := trace w @ [ev]\<rparr>"

definition new_events :: "'e world \<Rightarrow> 'e world \<Rightarrow> event list" where
  "new_events w w' = drop (length (trace w)) (trace w')"

subsection \<open>The C library: strdup, free, c\_str\<close>

text \<open>
  \<open>std::string::c_str()\<close> gives a pointer to the bytes followed by a terminating 0, and a
  reader of a \<open>char*\<close> stops at the first 0: the C string of \<open>s\<close> is \<open>s\<close> up to its first
  byte 0. \<open>strdup\<close> copies a C string to a block that is not live (allocation is
  taken to succeed). The code frees a pointer only when it is not null.
\<close>

definition c_str :: "string \<Rightarrow> string" where
  "c_str s = takeWhile (\<lambda>c. c \<noteq> CHR 0x00) s"

definition fresh_addr :: "c_heap \<Rightarrow> addr" where
  "fresh_addr h = Suc (fold max (map fst h) 0)"

definition strdup :: "string \<Rightarrow> ('e, addr option) op" where
  "strdup s w =
     (let a = fresh_addr (heap w)
      in (Inr (Some a), emit (Strdup a s) (w\<lparr>heap := heap w @ [(a, s)]\<rparr>)))"

definition free_if_set :: "addr option \<Rightarrow> ('e, unit) op" where
  "free_if_set p w =
     (case p of
        None \<Rightarrow> (Inr (), w)
      | Some a \<Rightarrow> (Inr (), emit (Free a) (w\<lparr>heap := filter (\<lambda>c. fst c \<noteq> a) (heap w)\<rparr>)))"

subsection \<open>node-addon-api: failing calls, property access, conversions\<close>

text \<open>
  A failing call: a C++ exception in the one build; in the other an exception becomes
  pending (one that is pending already stays) and the call returns its default value.
  A call that enters JavaScript (\<open>Has\<close>, \<open>Get\<close>, throwing) fails while an exception is
  pending; for \<open>ThrowAsJavaScriptException\<close> in the build without C++ exceptions that is
  a fatal error. \<open>As<T>()\<close> does not check the type; the conversion after it fails on a
  value of another type.
\<close>

definition napi_fail :: "build \<Rightarrow> string \<Rightarrow> 'a \<Rightarrow> ('e, 'a) op" where
  "napi_fail b msg dflt w =
     (case b of
        NAPI_CPP_EXCEPTIONS \<Rightarrow> (Inl (Cpp_exception msg), w)
      | NAPI_DISABLE_CPP_EXCEPTIONS \<Rightarrow>
          (Inr dflt, w\<lparr>pending := Some (case pending w of None \<Rightarrow> msg | Some m \<Rightarrow> m)\<rparr>))"

definition Has :: "build \<Rightarrow> napi_value \<Rightarrow> string \<Rightarrow> ('e, bool) op" where
  "Has b obj k w =
     (if pending w = None then (Inr (has_property obj k), w)
      else napi_fail b ''pending exception'' False w)"

definition Get :: "build \<Rightarrow> napi_value \<Rightarrow> string \<Rightarrow> ('e, napi_value) op" where
  "Get b obj k w =
     (if pending w = None then (Inr (get_property obj k), emit (Get_property k) w)
      else napi_fail b ''pending exception'' Undefined w)"

definition ThrowAsJavaScriptException :: "build \<Rightarrow> string \<Rightarrow> ('e, unit) op" where
  "ThrowAsJavaScriptException b msg w =
     (if pending w = None then (Inr (), w\<lparr>pending := Some msg\<rparr>)
      else (case b of
              NAPI_CPP_EXCEPTIONS \<Rightarrow> (Inl (Cpp_exception ''pending exception''), w)
            | NAPI_DISABLE_CPP_EXCEPTIONS \<Rightarrow> (Inl Fatal_error, w)))"

definition Utf8Value :: "build \<Rightarrow> napi_value \<Rightarrow> ('e, string) op" where
  "Utf8Value b v =
     (case v of String s \<Rightarrow> ret s | _ \<Rightarrow> napi_fail b ''A string was expected'' [])"

definition Int32Value :: "build \<Rightarrow> napi_value \<Rightarrow> ('e, int32) op" where
  "Int32Value b v =
     (case v of Number n \<Rightarrow> ret (ToInt32 n) | _ \<Rightarrow> napi_fail b ''A number was expected'' 0)"

definition Int64Value :: "build \<Rightarrow> napi_value \<Rightarrow> ('e, int64) op" where
  "Int64Value b v =
     (case v of Number n \<Rightarrow> ret (ToInt64 n) | _ \<Rightarrow> napi_fail b ''A number was expected'' 0)"

definition BooleanValue :: "build \<Rightarrow> napi_value \<Rightarrow> ('e, bool) op" where
  "BooleanValue b v =
     (case v of Boolean t \<Rightarrow> ret t | _ \<Rightarrow> napi_fail b ''A boolean was expected'' False)"

subsection \<open>Reading one field of a host object\<close>

text \<open>
  Both translators repeat one shape per field:
  \<^verbatim>\<open>if (obj.Has(k)) { field = obj.Get(k).As<T>().<conversion>; }\<close>
  after a \<open>memset\<close> of the record to 0. Each function below is that statement for one
  type of field; it yields the value the field holds afterwards.
\<close>

definition string_field :: "build \<Rightarrow> napi_value \<Rightarrow> string \<Rightarrow> ('e, addr option) op" where
  "string_field b obj k =
     seq (Has b obj k) (\<lambda>present.
       if present then seq (Get b obj k) (\<lambda>v. seq (Utf8Value b v) (\<lambda>s. strdup (c_str s)))
       else ret None)"

definition int32_field :: "build \<Rightarrow> napi_value \<Rightarrow> string \<Rightarrow> ('e, int32) op" where
  "int32_field b obj k =
     seq (Has b obj k) (\<lambda>present.
       if present then seq (Get b obj k) (\<lambda>v. Int32Value b v)
       else ret 0)"

definition int64_field :: "build \<Rightarrow> napi_value \<Rightarrow> string \<Rightarrow> ('e, int64) op" where
  "int64_field b obj k =
     seq (Has b obj k) (\<lambda>present.
       if present then seq (Get b obj k) (\<lambda>v. Int64Value b v)
       else ret 0)"

definition bool_field :: "build \<Rightarrow> napi_value \<Rightarrow> string \<Rightarrow> ('e, int32) op" where
  "bool_field b obj k =
     seq (Has b obj k) (\<lambda>present.
       if present then seq (Get b obj k) (\<lambda>v. seq (BooleanValue b v) (\<lambda>t. ret (if t then 1 else 0)))
       else ret 0)"

subsection \<open>ObjectToClientConfig and FreeClientConfig\<close>

definition ObjectToClientConfig :: "build \<Rightarrow> napi_value \<Rightarrow> ('e, gzh_client_config_t) op" where
  "ObjectToClientConfig b obj =
     seq (\<lambda>w. (Inr (), emit New_config w)) (\<lambda>_.
     seq (int64_field b obj ''timeout'') (\<lambda>t.
     seq (int32_field b obj ''retryCount'') (\<lambda>r.
     seq (bool_field b obj ''enablePlugins'') (\<lambda>e.
     seq (string_field b obj ''pluginDir'') (\<lambda>pd.
     seq (string_field b obj ''logLevel'') (\<lambda>ll.
     seq (string_field b obj ''logFile'') (\<lambda>lf.
     ret \<lparr>timeout = t, retry_count = r, enable_plugins = e,
          plugin_dir = pd, log_level = ll, log_file = lf\<rparr>)))))))"

definition FreeClientConfig :: "gzh_client_config_t option \<Rightarrow> ('e, unit) op" where
  "FreeClientConfig config =
     (case config of
        None \<Rightarrow> ret ()
      | Some c \<Rightarrow>
          seq (free_if_set (plugin_dir c)) (\<lambda>_.
          seq (free_if_set (log_level c)) (\<lambda>_.
          seq (free_if_set (log_file c)) (\<lambda>_.
          (\<lambda>w. (Inr (), emit Delete_config w))))))"

subsection \<open>ResultToObject\<close>

text \<open>
  The function reads \<open>result->success\<close> first, with no test of the pointer. The host
  object gets its three properties in the order of the source. Creating the host object
  and its strings is taken to succeed. (With an exception pending the properties are
  not set; the host never sees that object, see \<open>host_sees\<close>.)
\<close>

fun ResultToObject :: "result_ptr \<Rightarrow> error + napi_value" where
  "ResultToObject None = Inl Null_dereference"
| "ResultToObject (Some (a, r)) =
     Inr (Object
       [(''success'', Boolean (success r = 1)),
        (''error'', case error_msg r of Some m \<Rightarrow> String m | None \<Rightarrow> Null),
        (''data'', case data_json r of Some d \<Rightarrow> String d | None \<Rightarrow> Null)])"

subsection \<open>Calls into the engine\<close>

definition call_client_create :: "'e engine \<Rightarrow> gzh_client_config_t option \<Rightarrow> ('e, int32) op" where
  "call_client_create eng config w =
     (let (clientID, e') = gzh_node_client_create eng (engine_state w) (heap w) config
      in (Inr clientID, emit (Call_client_create config (heap w) clientID) (w\<lparr>engine_state := e'\<rparr>)))"

definition call_client_destroy :: "'e engine \<Rightarrow> int32 \<Rightarrow> ('e, unit) op" where
  "call_client_destroy eng clientID w =
     (Inr (), emit (Call_client_destroy clientID)
                (w\<lparr>engine_state := gzh_node_client_destroy eng (engine_state w) clientID\<rparr>))"

definition call_bulk_clone ::
  "'e engine \<Rightarrow> int32 \<Rightarrow> gzh_bulk_clone_request_t \<Rightarrow> ('e, result_ptr) op" where
  "call_bulk_clone eng clientID request w =
     (let (result, e') = gzh_node_bulk_clone eng (engine_state w) (heap w) clientID request
      in (Inr result,
          emit (Call_bulk_clone clientID request (heap w) result) (w\<lparr>engine_state := e'\<rparr>)))"

definition call_list_plugins :: "'e engine \<Rightarrow> int32 \<Rightarrow> ('e, result_ptr) op" where
  "call_list_plugins eng clientID w =
     (let (result, e') = gzh_node_list_plugins eng (engine_state w) clientID
      in (Inr result, emit (Call_list_plugins clientID result) (w\<lparr>engine_state := e'\<rparr>)))"

definition call_execute_plugin ::
  "'e engine \<Rightarrow> int32 \<Rightarrow> string \<Rightarrow> string \<Rightarrow> string \<Rightarrow> int32 \<Rightarrow> ('e, result_ptr) op" where
  "call_execute_plugin eng clientID plugin_name method args_json timeout_seconds w =
     (let (result, e') =
            gzh_node_execute_plugin eng (engine_state w) clientID
              (c_str plugin_name) (c_str method) (c_str args_json) timeout_seconds
      in (Inr result,
          emit (Call_execute_plugin clientID (c_str plugin_name) (c_str method)
                  (c_str args_json) timeout_seconds result)
            (w\<lparr>engine_state := e'\<rparr>)))"

definition call_health :: "'e engine \<Rightarrow> int32 \<Rightarrow> ('e, result_ptr) op" where
  "call_health eng clientID w =
     (let (result, e') = gzh_node_health eng (engine_state w) clientID
      in (Inr result, emit (Call_health clientID result) (w\<lparr>engine_state := e'\<rparr>)))"

text \<open>
  The tail every envelope-returning callback ends with:
  \<^verbatim>\<open>Napi::Object resultObj = ResultToObject(env, result);
  gzh_node_free_result(result);
  return resultObj;\<close>
\<close>

definition translate_and_release :: "'e engine \<Rightarrow> result_ptr \<Rightarrow> ('e, napi_value) op" where
  "translate_and_release eng result w =
     (case ResultToObject result of
        Inl e \<Rightarrow> (Inl e, w)
      | Inr resultObj \<Rightarrow>
          (case result of
             None \<Rightarrow> (Inr resultObj, w)
           | Some (a, r) \<Rightarrow>
               (Inr resultObj,
                emit (Call_free_result a)
                  (w\<lparr>engine_state := gzh_node_free_result eng (engine_state w) a\<rparr>))))"

subsection \<open>The six callbacks\<close>

definition CreateClient :: "build \<Rightarrow> 'e engine \<Rightarrow> napi_value list \<Rightarrow> ('e, napi_value) op" where
  "CreateClient b eng info =
     seq (if length info > 0 \<and> IsObject (info ! 0)
          then seq (ObjectToClientConfig b (info ! 0)) (\<lambda>c. ret (Some c))
          else ret None) (\<lambda>config.
     seq (call_client_create eng config) (\<lambda>clientID.
     seq (FreeClientConfig config) (\<lambda>_.
     if sint clientID < 0
     then seq (ThrowAsJavaScriptException b ''Failed to create client'') (\<lambda>_. ret Null)
     else ret (Number_New clientID))))"

definition DestroyClient :: "build \<Rightarrow> 'e engine \<Rightarrow> napi_value list \<Rightarrow> ('e, napi_value) op" where
  "DestroyClient b eng info =
     (if length info < 1 \<or> \<not> IsNumber (info ! 0)
      then seq (ThrowAsJavaScriptException b ''Expected client ID'') (\<lambda>_. ret Undefined)
      else
        seq (Int32Value b (info ! 0)) (\<lambda>clientID.
        seq (call_client_destroy eng clientID) (\<lambda>_.
        ret Undefined)))"

definition BulkClone :: "build \<Rightarrow> 'e engine \<Rightarrow> napi_value list \<Rightarrow> ('e, napi_value) op" where
  "BulkClone b eng info =
     (if length info < 2 \<or> \<not> IsNumber (info ! 0) \<or> \<not> IsObject (info ! 1)
      then seq (ThrowAsJavaScriptException b ''Expected client ID and request object'')
             (\<lambda>_. ret Null)
      else
        seq (Int32Value b (info ! 0)) (\<lambda>clientID.
        seq (string_field b (info ! 1) ''platforms'') (\<lambda>p.
        seq (string_field b (info ! 1) ''outputDir'') (\<lambda>od.
        seq (int32_field b (info ! 1) ''concurrency'') (\<lambda>c.
        seq (string_field b (info ! 1) ''strategy'') (\<lambda>st.
        seq (bool_field b (info ! 1) ''includePrivate'') (\<lambda>ip.
        seq (string_field b (info ! 1) ''filters'') (\<lambda>fl.
        seq (call_bulk_clone eng clientID
               \<lparr>platforms_json = p, output_dir = od, concurrency = c,
                strategy = st, include_private = ip, filters_json = fl\<rparr>) (\<lambda>result.
        seq (free_if_set p) (\<lambda>_.
        seq (free_if_set od) (\<lambda>_.
        seq (free_if_set st) (\<lambda>_.
        seq (free_if_set fl) (\<lambda>_.
        translate_and_release eng result)))))))))))))"

definition ListPlugins :: "build \<Rightarrow> 'e engine \<Rightarrow> napi_value list \<Rightarrow> ('e, napi_value) op" where
  "ListPlugins b eng info =
     (if length info < 1 \<or> \<not> IsNumber (info ! 0)
      then seq (ThrowAsJavaScriptException b ''Expected client ID'') (\<lambda>_. ret Null)
      else
        seq (Int32Value b (info ! 0)) (\<lambda>clientID.
        seq (call_list_plugins eng clientID) (\<lambda>result.
        translate_and_release eng result)))"

definition ExecutePlugin :: "build \<Rightarrow> 'e engine \<Rightarrow> napi_value list \<Rightarrow> ('e, napi_value) op" where
  "ExecutePlugin b eng info =
     (if length info < 4 \<or> \<not> IsNumber (info ! 0) \<or> \<not> IsString (info ! 1)
         \<or> \<not> IsString (info ! 2) \<or> \<not> IsString (info ! 3)
      then seq (ThrowAsJavaScriptException b ''Expected client ID, plugin name, method, and args'')
             (\<lambda>_. ret Null)
      else
        seq (Int32Value b (info ! 0)) (\<lambda>clientID.
        seq (Utf8Value b (info ! 1)) (\<lambda>pluginName.
        seq (Utf8Value b (info ! 2)) (\<lambda>method.
        seq (Utf8Value b (info ! 3)) (\<lambda>argsJson.
        seq (if length info > 4 then Int32Value b (info ! 4) else ret 30) (\<lambda>timeout.
        seq (call_execute_plugin eng clientID pluginName method argsJson timeout) (\<lambda>result.
        translate_and_release eng result)))))))"

definition Health :: "build \<Rightarrow> 'e engine \<Rightarrow> napi_value list \<Rightarrow> ('e, napi_value) op" where
  "Health b eng info =
     (if length info < 1 \<or> \<not> IsNumber (info ! 0)
      then seq (ThrowAsJavaScriptException b ''Expected client ID'') (\<lambda>_. ret Null)
      else
        seq (Int32Value b (info ! 0)) (\<lambda>clientID.
        seq (call_health eng clientID) (\<lambda>result.
        translate_and_release eng result)))"

subsection \<open>What the host sees of a callback\<close>

text \<open>
  When a callback returns, Node-API throws the pending exception in the host, if there is
  one, and drops the returned value; otherwise the host gets the value. A C++ exception
  leaving the callback is caught by node-addon-api and thrown in the host. A fatal error
  or a null dereference ends the process.
\<close>

datatype host_outcome = Returns napi_value | Throws string | Aborts

definition host_sees :: "(error + napi_value) \<times> 'e world \<Rightarrow> host_outcome" where
  "host_sees rw =
     (case fst rw of
        Inl (Cpp_exception m) \<Rightarrow> Throws m
      | Inl Fatal_error \<Rightarrow> Aborts
      | Inl Null_dereference \<Rightarrow> Aborts
      | Inr v \<Rightarrow> (case pending (snd rw) of Some m \<Rightarrow> Throws m | None \<Rightarrow> Returns v))"

subsection \<open>What an instrumented engine observes in a trace\<close>





text \<open>Whether an envelope-returning call of the engine answered with a null pointer.\<close>

fun null_answer :: "event \<Rightarrow> bool" where
  "null_answer (Call_bulk_clone c r h None) = True"
| "null_answer (Call_list_plugins c None) = True"
| "null_answer (Call_execute_plugin c p m j t None) = True"
| "null_answer (Call_health c None) = True"
| "null_answer ev = False"

definition null_received :: "event list \<Rightarrow> bool" where
  "null_received evs = (filter null_answer evs \<noteq> [])"

text \<open>Calls into the engine of any kind, and the events on the bridge's own heap.\<close>

fun engine_call :: "event \<Rightarrow> bool" where
  "engine_call (Get_property k) = False"
| "engine_call (Strdup a s) = False"
| "engine_call (Free a) = False"
| "engine_call New_config = False"
| "engine_call Delete_config = False"
| "engine_call ev = True"

definition engine_calls :: "event list \<Rightarrow> event list" where
  "engine_calls evs = filter engine_call evs"

fun allocated_of :: "event \<Rightarrow> addr list" where
  "allocated_of (Strdup a s) = [a]"
| "allocated_of ev = []"

definition allocated :: "event list \<Rightarrow> addr list" where
  "allocated evs = concat (map allocated_of evs)"

fun freed_of :: "event \<Rightarrow> addr list" where
  "freed_of (Free a) = [a]"
| "freed_of ev = []"

definition freed :: "event list \<Rightarrow> addr list" where
  "freed evs = concat (map freed_of evs)"

fun read_of :: "event \<Rightarrow> string list" where
  "read_of (Get_property k) = [k]"
| "read_of ev = []"

definition properties_read :: "event list \<Rightarrow> string list" where
  "properties_read evs = concat (map read_of evs)"

text \<open>What the engine was given by \<open>gzh_node_execute_plugin\<close> and \<open>gzh_node_bulk_clone\<close>.\<close>

fun timeout_of :: "event \<Rightarrow> int32 list" where
  "timeout_of (Call_execute_plugin c p m j t r) = [t]"
| "timeout_of ev = []"

definition timeouts_passed :: "event list \<Rightarrow> int32 list" where
  "timeouts_passed evs = concat (map timeout_of evs)"

fun request_of :: "event \<Rightarrow> (gzh_bulk_clone_request_t \<times> c_heap) list" where
  "request_of (Call_bulk_clone c r h res) = [(r, h)]"
| "request_of ev = []"

definition requests_passed :: "event list \<Rightarrow> (gzh_bulk_clone_request_t \<times> c_heap) list" where
  "requests_passed evs = concat (map request_of evs)"

text \<open>
  What the engine reads through one pointer field of the request it was given: nothing
  through a null pointer, else the string at that address in the heap of that moment.
\<close>

definition engine_reads :: "c_heap \<Rightarrow> addr option \<Rightarrow> string option" where
  "engine_reads h p = (case p of None \<Rightarrow> None | Some a \<Rightarrow> map_of h a)"

definition contents_passed ::
  "(gzh_bulk_clone_request_t \<Rightarrow> addr option) \<Rightarrow> event list \<Rightarrow> string option list" where
  "contents_passed field evs = map (\<lambda>rh. engine_reads (snd rh) (field (fst rh))) (requests_passed evs)"

fun config_of :: "event \<Rightarrow> (gzh_client_config_t option) list" where
  "config_of (Call_client_create c h i) = [c]"
| "config_of ev = []"

definition configs_passed :: "event list \<Rightarrow> (gzh_client_config_t option) list" where
  "configs_passed evs = concat (map config_of evs)"

subsection \<open>A fake engine and an empty world, for concrete runs\<close>

definition fake_engine :: "int32 \<Rightarrow> result_ptr \<Rightarrow> nat engine" where
  "fake_engine clientID result =
     \<lparr>gzh_node_client_create = (\<lambda>e h c. (clientID, Suc e)),
      gzh_node_client_destroy = (\<lambda>e c. Suc e),
      gzh_node_bulk_clone = (\<lambda>e h c r. (result, Suc e)),
      gzh_node_list_plugins = (\<lambda>e c. (result, Suc e)),
      gzh_node_execute_plugin = (\<lambda>e c p m j t. (result, Suc e)),
      gzh_node_health = (\<lambda>e c. (result, Suc e)),
      gzh_node_free_result = (\<lambda>e a. Suc e)\<rparr>"

definition cloned_3 :: result_ptr where
  "cloned_3 = Some (4096, \<lparr>success = 1, error_msg = None, data_json = Some ''{cloned:3}''\<rparr>)"

definition world0 :: "nat world" where
  "world0 = \<lparr>heap = [], pending = None, trace = [], engine_state = 0\<rparr>"

subsection \<open>Inputs that have the types of the data model\<close>

text \<open>
  The callbacks test only that the configuration and the request are objects. The data
  model gives each field a type; a host object is well typed when every field it has
  holds a value of that type.
\<close>

definition field_typed :: "(napi_value \<Rightarrow> bool) \<Rightarrow> napi_value \<Rightarrow> string \<Rightarrow> bool" where
  "field_typed is_t obj k = (case map_of (properties obj) k of None \<Rightarrow> True | Some v \<Rightarrow> is_t v)"

definition well_typed_config :: "napi_value \<Rightarrow> bool" where
  "well_typed_config obj =
     (field_typed IsNumber obj ''timeout'' \<and> field_typed IsNumber obj ''retryCount''
      \<and> field_typed IsBoolean obj ''enablePlugins'' \<and> field_typed IsString obj ''pluginDir''
      \<and> field_typed IsString obj ''logLevel'' \<and> field_typed IsString obj ''logFile'')"

definition well_typed_request :: "napi_value \<Rightarrow> bool" where
  "well_typed_request obj =
     (field_typed IsString obj ''platforms'' \<and> field_typed IsString obj ''outputDir''
      \<and> field_typed IsNumber obj ''concurrency'' \<and> field_typed IsString obj ''strategy''
      \<and> field_typed IsBoolean obj ''includePrivate'' \<and> field_typed IsString obj ''filters'')"

text \<open>
  How a string field of the host object \<open>obj\<close> shows in the pointer \<open>p\<close> the engine is
  given, read in the heap \<open>h\<close> of the moment of the call: an absent field is the null
  pointer; a field holding the string \<open>s\<close> is a block that was not live in \<open>h0\<close>, the
  heap at the entry of the callback, and holds \<open>content s\<close>.
\<close>

definition copied_field ::
  "(string \<Rightarrow> string) \<Rightarrow> napi_value \<Rightarrow> string \<Rightarrow> addr option \<Rightarrow> c_heap \<Rightarrow> c_heap \<Rightarrow> bool" where
  "copied_field content obj k p h0 h =
     ((map_of (properties obj) k = None \<longrightarrow> p = None)
      \<and> (\<forall>s. map_of (properties obj) k = Some (String s) \<longrightarrow>
             (\<exists>a. p = Some a \<and> map_of h a = Some (content s) \<and> a \<notin> fst ` set h0)))"

text \<open>The pointers of a list that are not null.\<close>

definition set_pointers :: "addr option list \<Rightarrow> addr list" where
  "set_pointers ps = concat (map (\<lambda>p. case p of None \<Rightarrow> [] | Some a \<Rightarrow> [a]) ps)"

subsection \<open>Reasoning about the trace of a composed operation\<close>

text \<open>
  \<open>behaves m Q\<close>: from any world, \<open>m\<close> only appends events to the trace, and its outcome
  and the events it appends satisfy \<open>Q\<close>. A local exit is an outcome other than a null
  dereference with no call into the engine among the events.
\<close>

definition behaves :: "('e, 'a) op \<Rightarrow> ((error + 'a) \<Rightarrow> event list \<Rightarrow> bool) \<Rightarrow> bool" where
  "behaves m Q = (\<forall>w. \<exists>evs. trace (snd (m w)) = trace w @ evs \<and> Q (fst (m w)) evs)"

definition local_exit :: "(error + 'a) \<Rightarrow> event list \<Rightarrow> bool" where
  "local_exit r evs = (r \<noteq> Inl Null_dereference \<and> engine_calls evs = [])"


definition crash_iff_null :: "(error + 'a) \<Rightarrow> event list \<Rightarrow> bool" where
  "crash_iff_null r evs = ((r = Inl Null_dereference) = null_received evs)"

definition reads_only :: "napi_value \<Rightarrow> (error + 'a) \<Rightarrow> event list \<Rightarrow> bool" where
  "reads_only obj r evs = list_all (has_property obj) (properties_read evs)"

text \<open>
  \<open>grows w w'\<close>: from \<open>w\<close> to \<open>w'\<close> no exception became pending, the engine was not
  called, and the heap only got new blocks.
\<close>

definition grows :: "'e world \<Rightarrow> 'e world \<Rightarrow> bool" where
  "grows w w' =
     (pending w' = None \<and> engine_state w' = engine_state w
      \<and> (\<exists>cs. heap w' = heap w @ cs)
      \<and> (\<exists>evs. trace w' = trace w @ evs \<and> engine_calls evs = []))"

text \<open>
  The end of \<open>BulkClone\<close> after the engine has answered: the four conditional frees, then
  the translation and the release of the envelope.
\<close>

definition free_request_strings ::
  "'e engine \<Rightarrow> addr option \<Rightarrow> addr option \<Rightarrow> addr option \<Rightarrow> addr option \<Rightarrow> result_ptr
     \<Rightarrow> ('e, napi_value) op" where
  "free_request_strings eng p od st fl result =
     seq (free_if_set p) (\<lambda>_.
     seq (free_if_set od) (\<lambda>_.
     seq (free_if_set st) (\<lambda>_.
     seq (free_if_set fl) (\<lambda>_.
     translate_and_release eng result))))"


text \<open>
  For the strings of a request. \<open>allocates A\<close>: the operation calls neither \<open>free\<close> nor
  the engine, and when it yields \<open>x\<close> the blocks it allocated are \<open>A x\<close>.
  \<open>frees_after_call as\<close>: if the operation gives the engine a request, then the blocks it
  frees are \<open>as\<close> followed by the blocks it allocates itself, in this order.
  \<open>reaches_engine\<close>: the operation gives the engine a request.
\<close>

definition allocates :: "('a \<Rightarrow> addr list) \<Rightarrow> (error + 'a) \<Rightarrow> event list \<Rightarrow> bool" where
  "allocates A r evs =
     (freed evs = [] \<and> requests_passed evs = [] \<and> (\<forall>x. r = Inr x \<longrightarrow> allocated evs = A x))"

definition frees_after_call :: "addr list \<Rightarrow> (error + 'a) \<Rightarrow> event list \<Rightarrow> bool" where
  "frees_after_call as r evs = (requests_passed evs \<noteq> [] \<longrightarrow> freed evs = as @ allocated evs)"

definition succeeds :: "(error + 'a) \<Rightarrow> event list \<Rightarrow> bool" where
  "succeeds r evs = (\<exists>x. r = Inr x)"

definition reaches_engine :: "(error + 'a) \<Rightarrow> event list \<Rightarrow> bool" where
  "reaches_engine r evs = (requests_passed evs \<noteq> [])"

section \<open>Lemmas\<close>

subsection \<open>Sequencing and the trace\<close>

lemma behavesI:
  "(\<And>w. \<exists>evs. trace (snd (m w)) = trace w @ evs \<and> Q (fst (m w)) evs) \<Longrightarrow> behaves m Q"
  by (simp add: behaves_def)

lemma behaves_seq_local:
  assumes m: "behaves m local_exit"
      and f: "\<And>x. behaves (f x) Q"
      and err: "\<And>e evs. e \<noteq> Null_dereference \<Longrightarrow> engine_calls evs = [] \<Longrightarrow> Q (Inl e) evs"
      and pre: "\<And>r pre evs. engine_calls pre = [] \<Longrightarrow> Q r evs \<Longrightarrow> Q r (pre @ evs)"
  shows "behaves (seq m f) Q"
proof (rule behavesI)
  fix w
  from m obtain evs1 where t1: "trace (snd (m w)) = trace w @ evs1"
    and l1: "local_exit (fst (m w)) evs1"
    unfolding behaves_def by blast
  show "\<exists>evs. trace (snd (seq m f w)) = trace w @ evs \<and> Q (fst (seq m f w)) evs"
  proof (cases "m w")
    case (Pair r w1)
    show ?thesis
    proof (cases r)
      case (Inl e)
      with Pair t1 l1 show ?thesis
        by (auto simp: seq_def local_exit_def intro: err)
    next
      case (Inr x)
      from f [of x] obtain evs2 where t2: "trace (snd (f x w1)) = trace w1 @ evs2"
        and q2: "Q (fst (f x w1)) evs2"
        unfolding behaves_def by blast
      from Pair Inr t1 l1 t2 q2 show ?thesis
        by (auto simp: seq_def local_exit_def intro: pre)
    qed
  qed
qed

lemma local_exit_seq:
  assumes "behaves m local_exit" and "\<And>x. behaves (f x) local_exit"
  shows "behaves (seq m f) local_exit"
  using assms
  by (rule behaves_seq_local) (auto simp: local_exit_def engine_calls_def)

lemma local_ret: "behaves (ret x) local_exit"
  by (simp add: behaves_def ret_def local_exit_def engine_calls_def)

lemma local_napi_fail: "behaves (napi_fail b msg d) local_exit"
  by (cases b) (simp_all add: behaves_def napi_fail_def local_exit_def engine_calls_def)

lemma local_Has: "behaves (Has b obj k) local_exit"
  using local_napi_fail [of b "''pending exception''" False]
  by (auto simp: behaves_def Has_def local_exit_def engine_calls_def)

lemma local_Get: "behaves (Get b obj k) local_exit"
  using local_napi_fail [of b "''pending exception''" Undefined]
  by (auto simp: behaves_def Get_def local_exit_def engine_calls_def emit_def)

lemma local_Utf8Value: "behaves (Utf8Value b v) local_exit"
  by (cases v) (simp_all add: Utf8Value_def local_ret local_napi_fail)

lemma local_Int32Value: "behaves (Int32Value b v) local_exit"
  by (cases v) (simp_all add: Int32Value_def local_ret local_napi_fail)

lemma local_Int64Value: "behaves (Int64Value b v) local_exit"
  by (cases v) (simp_all add: Int64Value_def local_ret local_napi_fail)

lemma local_BooleanValue: "behaves (BooleanValue b v) local_exit"
  by (cases v) (simp_all add: BooleanValue_def local_ret local_napi_fail)

lemma local_strdup: "behaves (strdup s) local_exit"
  by (simp add: behaves_def strdup_def Let_def local_exit_def engine_calls_def emit_def)

lemma local_free_if_set: "behaves (free_if_set p) local_exit"
  by (cases p) (simp_all add: behaves_def free_if_set_def local_exit_def engine_calls_def emit_def)

lemma local_Throw: "behaves (ThrowAsJavaScriptException b msg) local_exit"
  by (cases b) (simp_all add: behaves_def ThrowAsJavaScriptException_def local_exit_def engine_calls_def)

lemma behaves_if: "behaves m Q \<Longrightarrow> behaves n Q \<Longrightarrow> behaves (if c then m else n) Q"
  by simp

lemmas local_intros = behaves_if
  local_exit_seq local_ret local_napi_fail local_Has local_Get local_Utf8Value local_Int32Value
  local_Int64Value local_BooleanValue local_strdup local_free_if_set local_Throw

lemma local_string_field: "behaves (string_field b obj k) local_exit"
  unfolding string_field_def by (intro local_intros)

lemma local_int32_field: "behaves (int32_field b obj k) local_exit"
  unfolding int32_field_def by (intro local_intros)

lemma local_int64_field: "behaves (int64_field b obj k) local_exit"
  unfolding int64_field_def by (intro local_intros)

lemma local_bool_field: "behaves (bool_field b obj k) local_exit"
  unfolding bool_field_def by (intro local_intros)








lemma translate_and_release_trace:
  "trace (snd (translate_and_release eng result w)) =
     trace w @ (case result of None \<Rightarrow> [] | Some (a, r) \<Rightarrow> [Call_free_result a])"
  by (cases result) (auto simp: translate_and_release_def emit_def)




subsection \<open>The heap, and fields of well-typed objects\<close>

lemma fold_max_ge: "(m::nat) \<le> fold max xs m"
  by (induction xs arbitrary: m) (auto intro: order_trans [OF max.cobounded2])

lemma fold_max_mem: "(a::nat) \<in> set xs \<Longrightarrow> a \<le> fold max xs m"
proof (induction xs arbitrary: m)
  case Nil
  then show ?case by simp
next
  case (Cons x xs)
  show ?case
  proof (cases "a = x")
    case True
    have "x \<le> max x m" by simp
    also have "\<dots> \<le> fold max xs (max x m)" by (rule fold_max_ge)
    finally show ?thesis using True by simp
  next
    case False
    with Cons.prems have "a \<in> set xs" by simp
    then show ?thesis using Cons.IH by simp
  qed
qed

lemma fresh_addr_not_live: "fresh_addr h \<notin> fst ` set h"
proof
  assume "fresh_addr h \<in> fst ` set h"
  then have "fresh_addr h \<in> set (map fst h)" by simp
  then have "fresh_addr h \<le> fold max (map fst h) 0" by (rule fold_max_mem)
  then show False by (simp add: fresh_addr_def)
qed

lemma map_of_append_fresh:
  assumes "a \<notin> fst ` set h"
  shows "map_of (h @ [(a, s)]) a = Some s"
proof -
  from assms have "map_of h a = None" by (simp add: map_of_eq_None_iff)
  then show ?thesis by (simp add: map_add_def)
qed

lemma map_of_append_Some: "map_of h a = Some s \<Longrightarrow> map_of (h @ cs) a = Some s"
  by simp


lemma seq_Inr: "m w = (Inr x, w1) \<Longrightarrow> seq m f w = f x w1"
  by (simp add: seq_def)

lemma grows_refl: "pending w = None \<Longrightarrow> grows w w"
  by (simp add: grows_def engine_calls_def)

lemma grows_trans: "grows w w1 \<Longrightarrow> grows w1 w2 \<Longrightarrow> grows w w2"
  by (auto simp: grows_def engine_calls_def)

lemma typed_Has: "pending w = None \<Longrightarrow> Has b obj k w = (Inr (has_property obj k), w)"
  by (simp add: Has_def)

lemma typed_Get: "pending w = None \<Longrightarrow> Get b obj k w = (Inr (get_property obj k), emit (Get_property k) w)"
  by (simp add: Get_def)

lemma typed_string_field:
  assumes "pending w = None" and "field_typed IsString obj k"
  shows "\<exists>p w'. string_field b obj k w = (Inr p, w') \<and> grows w w'
           \<and> copied_field c_str obj k p (heap w) (heap w')"
proof (cases "map_of (properties obj) k")
  case None
  with assms show ?thesis
    by (simp add: string_field_def seq_def typed_Has has_property_def ret_def grows_refl
          copied_field_def)
next
  case (Some v)
  with assms obtain s where v: "v = String s"
    by (cases v) (simp_all add: field_typed_def)
  let ?a = "fresh_addr (heap w)"
  let ?w' = "emit (Strdup ?a (c_str s)) (emit (Get_property k) w\<lparr>heap := heap w @ [(?a, c_str s)]\<rparr>)"
  have run: "string_field b obj k w = (Inr (Some ?a), ?w')"
    using assms Some v
    by (simp add: string_field_def seq_def typed_Has typed_Get has_property_def get_property_def
          Utf8Value_def ret_def strdup_def Let_def emit_def)
  have g: "grows w ?w'"
    using assms by (simp add: grows_def emit_def engine_calls_def)
  have c: "copied_field c_str obj k (Some ?a) (heap w) (heap ?w')"
    using Some v map_of_append_fresh [OF fresh_addr_not_live, of "heap w" "c_str s"]
    by (simp add: copied_field_def emit_def fresh_addr_not_live del: map_of_append)
  from run g c show ?thesis by blast
qed

lemma typed_int32_field:
  assumes "pending w = None" and "field_typed IsNumber obj k"
  shows "\<exists>x w'. int32_field b obj k w = (Inr x, w') \<and> grows w w' \<and> heap w' = heap w"
proof (cases "map_of (properties obj) k")
  case None
  with assms show ?thesis
    by (simp add: int32_field_def seq_def typed_Has has_property_def ret_def grows_refl)
next
  case (Some v)
  with assms obtain n where v: "v = Number n"
    by (cases v) (simp_all add: field_typed_def)
  show ?thesis
    using assms Some v
    by (simp add: int32_field_def seq_def typed_Has typed_Get has_property_def get_property_def
          Int32Value_def ret_def emit_def grows_def engine_calls_def)
qed

lemma typed_int64_field:
  assumes "pending w = None" and "field_typed IsNumber obj k"
  shows "\<exists>x w'. int64_field b obj k w = (Inr x, w') \<and> grows w w' \<and> heap w' = heap w"
proof (cases "map_of (properties obj) k")
  case None
  with assms show ?thesis
    by (simp add: int64_field_def seq_def typed_Has has_property_def ret_def grows_refl)
next
  case (Some v)
  with assms obtain n where v: "v = Number n"
    by (cases v) (simp_all add: field_typed_def)
  show ?thesis
    using assms Some v
    by (simp add: int64_field_def seq_def typed_Has typed_Get has_property_def get_property_def
          Int64Value_def ret_def emit_def grows_def engine_calls_def)
qed

lemma typed_bool_field:
  assumes "pending w = None" and "field_typed IsBoolean obj k"
  shows "\<exists>x w'. bool_field b obj k w = (Inr x, w') \<and> grows w w' \<and> heap w' = heap w"
proof (cases "map_of (properties obj) k")
  case None
  with assms show ?thesis
    by (simp add: bool_field_def seq_def typed_Has has_property_def ret_def grows_refl)
next
  case (Some v)
  with assms obtain t where v: "v = Boolean t"
    by (cases v) (simp_all add: field_typed_def)
  show ?thesis
    using assms Some v
    by (simp add: bool_field_def seq_def typed_Has typed_Get has_property_def get_property_def
          BooleanValue_def ret_def emit_def grows_def engine_calls_def)
qed

lemma copied_field_grows:
  assumes "copied_field c obj k p h0 (heap w1)" and "grows w1 w2"
  shows "copied_field c obj k p h0 (heap w2)"
  using assms by (auto simp: copied_field_def grows_def)

lemma copied_field_older:
  assumes "copied_field c obj k p (h0 @ cs) h"
  shows "copied_field c obj k p h0 h"
  using assms by (fastforce simp: copied_field_def)


subsection \<open>Envelopes: received, released, null\<close>

lemma local_null_answer: "engine_calls evs = [] \<Longrightarrow> filter null_answer evs = []"
proof (induction evs)
  case Nil
  show ?case by simp
next
  case (Cons ev evs)
  then show ?case by (cases ev) (simp_all add: engine_calls_def)
qed

lemma crash_seq:
  assumes "behaves m local_exit" and "\<And>x. behaves (f x) crash_iff_null"
  shows "behaves (seq m f) crash_iff_null"
  using assms
  by (rule behaves_seq_local)
     (simp_all add: crash_iff_null_def null_received_def local_null_answer)

lemma crash_local:
  assumes "behaves m local_exit"
  shows "behaves m crash_iff_null"
proof (rule behavesI)
  fix w
  from assms obtain evs where "trace (snd (m w)) = trace w @ evs"
    and "fst (m w) \<noteq> Inl Null_dereference" and "engine_calls evs = []"
    unfolding behaves_def local_exit_def by blast
  then show "\<exists>evs. trace (snd (m w)) = trace w @ evs \<and> crash_iff_null (fst (m w)) evs"
    by (auto simp: crash_iff_null_def null_received_def local_null_answer)
qed

lemma translate_and_release_fst:
  "fst (translate_and_release eng result w) = ResultToObject result"
  by (cases result) (auto simp: translate_and_release_def)

lemma free_if_set_run:
  "free_if_set p w =
     (Inr (), w\<lparr>heap := (case p of None \<Rightarrow> heap w | Some a \<Rightarrow> filter (\<lambda>c. fst c \<noteq> a) (heap w)),
               trace := trace w @ map Free (set_pointers [p])\<rparr>)"
  by (cases p) (simp_all add: free_if_set_def emit_def set_pointers_def)

lemma set_pointers_Cons: "set_pointers (p # ps) = set_pointers [p] @ set_pointers ps"
  by (simp add: set_pointers_def)

lemma free_request_strings_trace:
  "trace (snd (free_request_strings eng p od st fl result w)) =
     trace w @ map Free (set_pointers [p, od, st, fl])
       @ (case result of None \<Rightarrow> [] | Some (a, r) \<Rightarrow> [Call_free_result a])"
  by (simp add: free_request_strings_def seq_def free_if_set_run translate_and_release_trace
        set_pointers_Cons [of _ "_ # _"])

lemma free_request_strings_fst:
  "fst (free_request_strings eng p od st fl result w) = ResultToObject result"
  by (simp add: free_request_strings_def seq_def free_if_set_run translate_and_release_fst)








lemma null_answer_Free: "filter null_answer (map Free as) = []"
  by (induction as) simp_all


lemma crash_bulk_clone_tail:
  fixes eng :: "'e engine"
  shows "behaves (seq (call_bulk_clone eng clientID request)
                   (free_request_strings eng p od st fl)) crash_iff_null"
proof (rule behavesI)
  fix w :: "'e world"
  let ?m = "seq (call_bulk_clone eng clientID request) (free_request_strings eng p od st fl)"
  obtain result e' where
    c: "gzh_node_bulk_clone eng (engine_state w) (heap w) clientID request = (result, e')"
    by (cases "gzh_node_bulk_clone eng (engine_state w) (heap w) clientID request")
  show "\<exists>evs. trace (snd (?m w)) = trace w @ evs \<and> crash_iff_null (fst (?m w)) evs"
    using c
    by (cases result)
       (auto simp: seq_def call_bulk_clone_def free_request_strings_trace
          free_request_strings_fst emit_def crash_iff_null_def null_received_def
          null_answer_Free)
qed


lemma crash_BulkClone: "behaves (BulkClone b eng info) crash_iff_null"
  unfolding BulkClone_def free_request_strings_def [symmetric]
  by (intro behaves_if crash_seq crash_local local_intros crash_bulk_clone_tail
        local_string_field local_int32_field local_bool_field)


lemma new_events_append: "trace w' = trace w @ evs \<Longrightarrow> new_events w w' = evs"
  by (simp add: new_events_def)



lemma crash_list_plugins_tail:
  fixes eng :: "'e engine"
  shows "behaves (seq (call_list_plugins eng clientID) (translate_and_release eng)) crash_iff_null"
proof (rule behavesI)
  fix w :: "'e world"
  let ?m = "seq (call_list_plugins eng clientID) (translate_and_release eng)"
  obtain result e' where c: "gzh_node_list_plugins eng (engine_state w) clientID = (result, e')"
    by (cases "gzh_node_list_plugins eng (engine_state w) clientID")
  show "\<exists>evs. trace (snd (?m w)) = trace w @ evs \<and> crash_iff_null (fst (?m w)) evs"
    using c
    by (cases result)
       (auto simp: seq_def call_list_plugins_def translate_and_release_trace
          translate_and_release_fst emit_def crash_iff_null_def null_received_def)
qed

lemma crash_execute_plugin_tail:
  fixes eng :: "'e engine"
  shows "behaves (seq (call_execute_plugin eng clientID pn me aj t) (translate_and_release eng))
           crash_iff_null"
proof (rule behavesI)
  fix w :: "'e world"
  let ?m = "seq (call_execute_plugin eng clientID pn me aj t) (translate_and_release eng)"
  obtain result e' where
    c: "gzh_node_execute_plugin eng (engine_state w) clientID (c_str pn) (c_str me) (c_str aj) t
          = (result, e')"
    by (cases "gzh_node_execute_plugin eng (engine_state w) clientID (c_str pn) (c_str me) (c_str aj) t")
  show "\<exists>evs. trace (snd (?m w)) = trace w @ evs \<and> crash_iff_null (fst (?m w)) evs"
    using c
    by (cases result)
       (auto simp: seq_def call_execute_plugin_def translate_and_release_trace
          translate_and_release_fst emit_def crash_iff_null_def null_received_def)
qed

lemma crash_health_tail:
  fixes eng :: "'e engine"
  shows "behaves (seq (call_health eng clientID) (translate_and_release eng)) crash_iff_null"
proof (rule behavesI)
  fix w :: "'e world"
  let ?m = "seq (call_health eng clientID) (translate_and_release eng)"
  obtain result e' where c: "gzh_node_health eng (engine_state w) clientID = (result, e')"
    by (cases "gzh_node_health eng (engine_state w) clientID")
  show "\<exists>evs. trace (snd (?m w)) = trace w @ evs \<and> crash_iff_null (fst (?m w)) evs"
    using c
    by (cases result)
       (auto simp: seq_def call_health_def translate_and_release_trace
          translate_and_release_fst emit_def crash_iff_null_def null_received_def)
qed



lemma crash_ListPlugins: "behaves (ListPlugins b eng info) crash_iff_null"
  unfolding ListPlugins_def
  by (intro behaves_if crash_seq crash_local local_intros crash_list_plugins_tail)

lemma crash_ExecutePlugin: "behaves (ExecutePlugin b eng info) crash_iff_null"
  unfolding ExecutePlugin_def
  by (intro behaves_if crash_seq crash_local local_intros crash_execute_plugin_tail)

lemma crash_Health: "behaves (Health b eng info) crash_iff_null"
  unfolding Health_def
  by (intro behaves_if crash_seq crash_local local_intros crash_health_tail)

subsection \<open>The timeout of execute plugin\<close>

lemma trunc_of_int: "trunc_toward_zero (of_int i) = i"
  by (simp add: trunc_toward_zero_def)

lemma ToInt32_integer:
  assumes "- (2 ^ 31) \<le> i" and "i < 2 ^ 31"
  shows "sint (ToInt32 (Finite (of_int i))) = i"
  using assms by (simp add: trunc_of_int sint_sbintrunc' signed_take_bit_int_eq_self)

lemma timeouts_passed_Cons: "timeouts_passed (ev # evs) = timeout_of ev @ timeouts_passed evs"
  by (simp add: timeouts_passed_def)

lemma timeouts_passed_Nil: "timeouts_passed [] = []"
  by (simp add: timeouts_passed_def)

lemma ExecutePlugin_default_timeout:
  "timeouts_passed (new_events w
      (snd (ExecutePlugin b eng [Number h, String p, String m, String j] w))) = [30]"
proof -
  obtain result e' where
    c: "gzh_node_execute_plugin eng (engine_state w) (ToInt32 h) (c_str p) (c_str m) (c_str j) 30
          = (result, e')"
    by (cases "gzh_node_execute_plugin eng (engine_state w) (ToInt32 h) (c_str p) (c_str m) (c_str j) 30")
  then show ?thesis
    by (simp add: ExecutePlugin_def seq_def ret_def Int32Value_def Utf8Value_def
          call_execute_plugin_def translate_and_release_trace emit_def new_events_def
          timeouts_passed_Cons timeouts_passed_Nil split: option.splits)
qed

lemma ExecutePlugin_explicit_timeout:
  "timeouts_passed (new_events w
      (snd (ExecutePlugin b eng (Number h # String p # String m # String j # Number t # rest) w)))
     = [ToInt32 t]"
proof -
  obtain result e' where
    c: "gzh_node_execute_plugin eng (engine_state w) (ToInt32 h) (c_str p) (c_str m) (c_str j)
          (ToInt32 t) = (result, e')"
    by (cases "gzh_node_execute_plugin eng (engine_state w) (ToInt32 h) (c_str p) (c_str m)
                 (c_str j) (ToInt32 t)")
  then show ?thesis
    by (simp add: ExecutePlugin_def seq_def ret_def Int32Value_def Utf8Value_def
          call_execute_plugin_def translate_and_release_trace emit_def new_events_def
          timeouts_passed_Cons timeouts_passed_Nil split: option.splits)
qed

subsection \<open>Translating a well-typed configuration\<close>

lemma seq_InrE:
  assumes "seq m f w = (Inr y, w')"
  obtains x w1 where "m w = (Inr x, w1)" and "f x w1 = (Inr y, w')"
  using assms by (auto simp: seq_def split: prod.splits sum.splits)

lemma grows_emit_local:
  "pending w = None \<Longrightarrow> \<not> engine_call ev \<Longrightarrow> grows w (emit ev w)"
  by (simp add: grows_def emit_def engine_calls_def)

lemma typed_ObjectToClientConfig:
  assumes p: "pending w = None" and t: "well_typed_config obj"
  shows "\<exists>c w'. ObjectToClientConfig b obj w = (Inr c, w') \<and> grows w w'"
proof -
  let ?w0 = "emit New_config w"
  have g0: "grows w ?w0" using p by (simp add: grows_emit_local)
  then have p0: "pending ?w0 = None" by (simp add: grows_def)
  from t have t1: "field_typed IsNumber obj ''timeout''" and t2: "field_typed IsNumber obj ''retryCount''"
    and t3: "field_typed IsBoolean obj ''enablePlugins''" and t4: "field_typed IsString obj ''pluginDir''"
    and t5: "field_typed IsString obj ''logLevel''" and t6: "field_typed IsString obj ''logFile''"
    by (simp_all add: well_typed_config_def)
  from typed_int64_field [OF p0 t1] obtain x1 w1 where
    r1: "int64_field b obj ''timeout'' ?w0 = (Inr x1, w1)" and g1: "grows ?w0 w1" by blast
  from g1 have p1: "pending w1 = None" by (simp add: grows_def)
  from typed_int32_field [OF p1 t2] obtain x2 w2 where
    r2: "int32_field b obj ''retryCount'' w1 = (Inr x2, w2)" and g2: "grows w1 w2" by blast
  from g2 have p2: "pending w2 = None" by (simp add: grows_def)
  from typed_bool_field [OF p2 t3] obtain x3 w3 where
    r3: "bool_field b obj ''enablePlugins'' w2 = (Inr x3, w3)" and g3: "grows w2 w3" by blast
  from g3 have p3: "pending w3 = None" by (simp add: grows_def)
  from typed_string_field [OF p3 t4] obtain x4 w4 where
    r4: "string_field b obj ''pluginDir'' w3 = (Inr x4, w4)" and g4: "grows w3 w4" by blast
  from g4 have p4: "pending w4 = None" by (simp add: grows_def)
  from typed_string_field [OF p4 t5] obtain x5 w5 where
    r5: "string_field b obj ''logLevel'' w4 = (Inr x5, w5)" and g5: "grows w4 w5" by blast
  from g5 have p5: "pending w5 = None" by (simp add: grows_def)
  from typed_string_field [OF p5 t6] obtain x6 w6 where
    r6: "string_field b obj ''logFile'' w5 = (Inr x6, w6)" and g6: "grows w5 w6" by blast
  have run: "ObjectToClientConfig b obj w =
          (Inr \<lparr>timeout = x1, retry_count = x2, enable_plugins = x3,
                plugin_dir = x4, log_level = x5, log_file = x6\<rparr>, w6)"
    unfolding ObjectToClientConfig_def
    by (simp add: seq_def r1 r2 r3 r4 r5 r6 ret_def)
  have "grows w w6"
    using g0 g1 g2 g3 g4 g5 g6 by (blast intro: grows_trans)
  with run show ?thesis by blast
qed

lemma FreeClientConfig_run:
  "\<exists>w'. FreeClientConfig config w = (Inr (), w') \<and> pending w' = pending w
        \<and> engine_state w' = engine_state w
        \<and> (\<exists>evs. trace w' = trace w @ evs \<and> engine_calls evs = [])"
proof (cases config)
  case None
  then show ?thesis by (simp add: FreeClientConfig_def ret_def engine_calls_def)
next
  case (Some c)
  have l: "engine_calls (map Free as) = []" for as
    by (induction as) (simp_all add: engine_calls_def)
  from Some show ?thesis
    by (simp add: FreeClientConfig_def seq_def free_if_set_run emit_def l
          engine_calls_def [of "_ @ _"] engine_calls_def [of "[_]"])
qed





subsection \<open>The configuration translator: absent fields, reads, what create receives\<close>

lemma absent_string_field:
  assumes "\<not> has_property obj k" and "string_field b obj k w = (Inr p, w')"
  shows "p = None"
  using assms
  by (cases b; cases "pending w")
     (auto simp: string_field_def seq_def Has_def napi_fail_def ret_def)

lemma absent_int32_field:
  assumes "\<not> has_property obj k" and "int32_field b obj k w = (Inr x, w')"
  shows "x = 0"
  using assms
  by (cases b; cases "pending w")
     (auto simp: int32_field_def seq_def Has_def napi_fail_def ret_def)

lemma absent_int64_field:
  assumes "\<not> has_property obj k" and "int64_field b obj k w = (Inr x, w')"
  shows "x = 0"
  using assms
  by (cases b; cases "pending w")
     (auto simp: int64_field_def seq_def Has_def napi_fail_def ret_def)

lemma absent_bool_field:
  assumes "\<not> has_property obj k" and "bool_field b obj k w = (Inr x, w')"
  shows "x = 0"
  using assms
  by (cases b; cases "pending w")
     (auto simp: bool_field_def seq_def Has_def napi_fail_def ret_def)

lemma ObjectToClientConfig_absent:
  assumes "ObjectToClientConfig b obj w = (Inr c, w')"
  shows "(\<not> has_property obj ''timeout'' \<longrightarrow> timeout c = 0)
       \<and> (\<not> has_property obj ''retryCount'' \<longrightarrow> retry_count c = 0)
       \<and> (\<not> has_property obj ''enablePlugins'' \<longrightarrow> enable_plugins c = 0)
       \<and> (\<not> has_property obj ''pluginDir'' \<longrightarrow> plugin_dir c = None)
       \<and> (\<not> has_property obj ''logLevel'' \<longrightarrow> log_level c = None)
       \<and> (\<not> has_property obj ''logFile'' \<longrightarrow> log_file c = None)"
  using assms unfolding ObjectToClientConfig_def
  apply (elim seq_InrE)
  apply (auto simp: ret_def dest: absent_string_field absent_int32_field absent_int64_field
           absent_bool_field)
  done

lemma properties_read_append:
  "properties_read (xs @ ys) = properties_read xs @ properties_read ys"
  by (simp add: properties_read_def)

lemma reads_seq:
  assumes m: "behaves m (reads_only obj)" and f: "\<And>x. behaves (f x) (reads_only obj)"
  shows "behaves (seq m f) (reads_only obj)"
proof (rule behavesI)
  fix w
  from m obtain evs1 where t1: "trace (snd (m w)) = trace w @ evs1"
    and l1: "reads_only obj (fst (m w)) evs1"
    unfolding behaves_def by blast
  show "\<exists>evs. trace (snd (seq m f w)) = trace w @ evs \<and> reads_only obj (fst (seq m f w)) evs"
  proof (cases "m w")
    case (Pair r w1)
    show ?thesis
    proof (cases r)
      case (Inl e)
      with Pair t1 l1 show ?thesis
        by (auto simp: seq_def reads_only_def)
    next
      case (Inr x)
      from f [of x] obtain evs2 where t2: "trace (snd (f x w1)) = trace w1 @ evs2"
        and q2: "reads_only obj (fst (f x w1)) evs2"
        unfolding behaves_def by blast
      from Pair Inr t1 l1 t2 q2 show ?thesis
        by (auto simp: seq_def reads_only_def properties_read_append)
    qed
  qed
qed

lemma reads_string_field: "behaves (string_field b obj k) (reads_only obj)"
  by (rule behavesI)
     (auto simp: string_field_def seq_def Has_def Get_def napi_fail_def Utf8Value_def ret_def
        strdup_def Let_def emit_def reads_only_def properties_read_def
        split: build.splits napi_value.splits)

lemma reads_int32_field: "behaves (int32_field b obj k) (reads_only obj)"
  by (rule behavesI)
     (auto simp: int32_field_def seq_def Has_def Get_def napi_fail_def Int32Value_def ret_def
        emit_def reads_only_def properties_read_def
        split: build.splits napi_value.splits)

lemma reads_int64_field: "behaves (int64_field b obj k) (reads_only obj)"
  by (rule behavesI)
     (auto simp: int64_field_def seq_def Has_def Get_def napi_fail_def Int64Value_def ret_def
        emit_def reads_only_def properties_read_def
        split: build.splits napi_value.splits)

lemma reads_bool_field: "behaves (bool_field b obj k) (reads_only obj)"
  by (rule behavesI)
     (auto simp: bool_field_def seq_def Has_def Get_def napi_fail_def BooleanValue_def ret_def
        emit_def reads_only_def properties_read_def
        split: build.splits napi_value.splits)

lemma reads_ret: "behaves (ret x) (reads_only obj)"
  by (simp add: behaves_def ret_def reads_only_def properties_read_def)

lemma reads_ObjectToClientConfig: "behaves (ObjectToClientConfig b obj) (reads_only obj)"
  unfolding ObjectToClientConfig_def
proof (intro reads_seq reads_string_field reads_int32_field reads_int64_field reads_bool_field
    reads_ret)
  show "behaves (\<lambda>w. (Inr (), emit New_config w)) (reads_only obj)"
    by (simp add: behaves_def emit_def reads_only_def properties_read_def)
qed


lemma local_ObjectToClientConfig: "behaves (ObjectToClientConfig b obj) local_exit"
  unfolding ObjectToClientConfig_def
proof (intro local_intros local_string_field local_int32_field local_int64_field
    local_bool_field)
  show "behaves (\<lambda>w. (Inr (), emit New_config w)) local_exit"
    by (simp add: behaves_def emit_def local_exit_def engine_calls_def)
qed

lemma configs_passed_append:
  "configs_passed (xs @ ys) = configs_passed xs @ configs_passed ys"
  by (simp add: configs_passed_def)

lemma local_configs_passed: "engine_calls evs = [] \<Longrightarrow> configs_passed evs = []"
proof (induction evs)
  case Nil
  show ?case by (simp add: configs_passed_def)
next
  case (Cons ev evs)
  then show ?case by (cases ev) (simp_all add: configs_passed_def engine_calls_def)
qed

lemma CreateClient_after_config:
  fixes eng :: "'e engine"
  shows "\<exists>clientID h evs.
           trace (snd (seq (call_client_create eng config) (\<lambda>clientID.
                       seq (FreeClientConfig config) (\<lambda>_.
                       if sint clientID < 0
                       then seq (ThrowAsJavaScriptException b ''Failed to create client'')
                              (\<lambda>_. ret Null)
                       else ret (Number_New clientID))) w1))
           = trace w1 @ Call_client_create config h clientID # evs \<and> engine_calls evs = []"
proof -
  obtain clientID e' where
    c: "gzh_node_client_create eng (engine_state w1) (heap w1) config = (clientID, e')"
    by (cases "gzh_node_client_create eng (engine_state w1) (heap w1) config")
  let ?w2 = "emit (Call_client_create config (heap w1) clientID) (w1\<lparr>engine_state := e'\<rparr>)"
  have r2: "call_client_create eng config w1 = (Inr clientID, ?w2)"
    using c by (simp add: call_client_create_def)
  from FreeClientConfig_run [of config ?w2] obtain w3 evs3 where
    r3: "FreeClientConfig config ?w2 = (Inr (), w3)"
    and t3: "trace w3 = trace ?w2 @ evs3" and l3: "engine_calls evs3 = []"
    by blast
  show ?thesis
    using r2 r3 t3 l3
    by (cases b; cases "pending w3")
       (auto simp: seq_def ret_def ThrowAsJavaScriptException_def emit_def)
qed

lemma seq_ret: "seq (ret x) f = f x"
  by (rule ext) (simp add: seq_def ret_def)

lemma configs_passed_Cons: "configs_passed (ev # evs) = config_of ev @ configs_passed evs"
  by (simp add: configs_passed_def)

lemma CreateClient_null_config:
  fixes eng :: "'e engine" and w :: "'e world"
  assumes "length info = 0 \<or> \<not> IsObject (info ! 0)"
  shows "configs_passed (new_events w (snd (CreateClient b eng info w))) = [None]"
proof -
  let ?rest = "seq (call_client_create eng None) (\<lambda>clientID.
                       seq (FreeClientConfig None) (\<lambda>_.
                       if sint clientID < 0
                       then seq (ThrowAsJavaScriptException b ''Failed to create client'')
                              (\<lambda>_. ret Null)
                       else ret (Number_New clientID)))"
  from assms have e: "CreateClient b eng info = ?rest"
    unfolding CreateClient_def by (auto simp: seq_ret)
  from CreateClient_after_config [of eng None b w] obtain clientID h evs where
    t: "trace (snd (?rest w)) = trace w @ Call_client_create None h clientID # evs"
    and l: "engine_calls evs = []"
    by blast
  show ?thesis
    unfolding e using t l
    by (simp add: new_events_def configs_passed_Cons local_configs_passed)
qed

lemma CreateClient_translated_config:
  fixes eng :: "'e engine" and w :: "'e world"
  assumes o: "0 < length info \<and> IsObject (info ! 0)"
      and r: "ObjectToClientConfig b (info ! 0) w = (Inr c, w1)"
  shows "configs_passed (new_events w (snd (CreateClient b eng info w))) = [Some c]"
proof -
  let ?rest = "seq (call_client_create eng (Some c)) (\<lambda>clientID.
                       seq (FreeClientConfig (Some c)) (\<lambda>_.
                       if sint clientID < 0
                       then seq (ThrowAsJavaScriptException b ''Failed to create client'')
                              (\<lambda>_. ret Null)
                       else ret (Number_New clientID)))"
  from o r have e: "CreateClient b eng info w = ?rest w1"
    unfolding CreateClient_def by (simp add: seq_def ret_def)
  from local_ObjectToClientConfig [of b "info ! 0"] r obtain evs1 where
    t1: "trace w1 = trace w @ evs1" and l1: "engine_calls evs1 = []"
    unfolding behaves_def local_exit_def by (metis snd_conv)
  from CreateClient_after_config [of eng "Some c" b w1] obtain clientID h evs where
    t: "trace (snd (?rest w1)) = trace w1 @ Call_client_create (Some c) h clientID # evs"
    and l: "engine_calls evs = []"
    by blast
  show ?thesis
    unfolding e using t t1 l l1
    by (simp add: new_events_def configs_passed_Cons configs_passed_append local_configs_passed)
qed

subsection \<open>The request the engine is given by bulk clone\<close>

lemma requests_passed_append:
  "requests_passed (xs @ ys) = requests_passed xs @ requests_passed ys"
  by (simp add: requests_passed_def)

lemma requests_passed_Cons: "requests_passed (ev # evs) = request_of ev @ requests_passed evs"
  by (simp add: requests_passed_def)

lemma requests_passed_Nil: "requests_passed [] = []"
  by (simp add: requests_passed_def)

lemma local_requests_passed: "engine_calls evs = [] \<Longrightarrow> requests_passed evs = []"
proof (induction evs)
  case Nil
  show ?case by (simp add: requests_passed_def)
next
  case (Cons ev evs)
  then show ?case by (cases ev) (simp_all add: requests_passed_def engine_calls_def)
qed

lemma requests_passed_Free: "requests_passed (map Free as) = []"
  by (induction as) (simp_all add: requests_passed_def)

lemma c_str_no_NUL: "CHR 0x00 \<notin> set s \<Longrightarrow> c_str s = s"
  by (auto simp: c_str_def takeWhile_eq_all_conv)

lemma grows_heap: "grows w w' \<Longrightarrow> \<exists>cs. heap w' = heap w @ cs"
  by (simp add: grows_def)

lemma copied_field_lift:
  assumes c: "copied_field f obj k p (heap w1) (heap w2)"
      and g1: "grows w w1" and g2: "grows w2 w3"
  shows "copied_field f obj k p (heap w) (heap w3)"
proof -
  from g1 obtain cs where "heap w1 = heap w @ cs" by (auto simp: grows_def)
  with c have "copied_field f obj k p (heap w) (heap w2)"
    by (simp add: copied_field_older)
  then show ?thesis using g2 by (rule copied_field_grows)
qed

lemma typed_request_fields:
  assumes p: "pending w = None" and t: "well_typed_request obj"
  shows "\<exists>x1 x2 x3 x4 x5 x6 w1 w2 w3 w4 w5 w6.
           string_field b obj ''platforms'' w = (Inr x1, w1)
         \<and> string_field b obj ''outputDir'' w1 = (Inr x2, w2)
         \<and> int32_field b obj ''concurrency'' w2 = (Inr x3, w3)
         \<and> string_field b obj ''strategy'' w3 = (Inr x4, w4)
         \<and> bool_field b obj ''includePrivate'' w4 = (Inr x5, w5)
         \<and> string_field b obj ''filters'' w5 = (Inr x6, w6)
         \<and> grows w w6
         \<and> copied_field c_str obj ''platforms'' x1 (heap w) (heap w6)
         \<and> copied_field c_str obj ''outputDir'' x2 (heap w) (heap w6)
         \<and> copied_field c_str obj ''strategy'' x4 (heap w) (heap w6)
         \<and> copied_field c_str obj ''filters'' x6 (heap w) (heap w6)"
proof -
  from t have t1: "field_typed IsString obj ''platforms''" and t2: "field_typed IsString obj ''outputDir''"
    and t3: "field_typed IsNumber obj ''concurrency''" and t4: "field_typed IsString obj ''strategy''"
    and t5: "field_typed IsBoolean obj ''includePrivate''" and t6: "field_typed IsString obj ''filters''"
    by (simp_all add: well_typed_request_def)
  have g0: "grows w w" using p by (rule grows_refl)
  from typed_string_field [OF p t1] obtain x1 w1 where
    r1: "string_field b obj ''platforms'' w = (Inr x1, w1)" and g1: "grows w w1"
    and c1: "copied_field c_str obj ''platforms'' x1 (heap w) (heap w1)" by blast
  from g1 have p1: "pending w1 = None" by (simp add: grows_def)
  from typed_string_field [OF p1 t2] obtain x2 w2 where
    r2: "string_field b obj ''outputDir'' w1 = (Inr x2, w2)" and g2: "grows w1 w2"
    and c2: "copied_field c_str obj ''outputDir'' x2 (heap w1) (heap w2)" by blast
  from g2 have p2: "pending w2 = None" by (simp add: grows_def)
  from typed_int32_field [OF p2 t3] obtain x3 w3 where
    r3: "int32_field b obj ''concurrency'' w2 = (Inr x3, w3)" and g3: "grows w2 w3" by blast
  from g3 have p3: "pending w3 = None" by (simp add: grows_def)
  from typed_string_field [OF p3 t4] obtain x4 w4 where
    r4: "string_field b obj ''strategy'' w3 = (Inr x4, w4)" and g4: "grows w3 w4"
    and c4: "copied_field c_str obj ''strategy'' x4 (heap w3) (heap w4)" by blast
  from g4 have p4: "pending w4 = None" by (simp add: grows_def)
  from typed_bool_field [OF p4 t5] obtain x5 w5 where
    r5: "bool_field b obj ''includePrivate'' w4 = (Inr x5, w5)" and g5: "grows w4 w5" by blast
  from g5 have p5: "pending w5 = None" by (simp add: grows_def)
  from typed_string_field [OF p5 t6] obtain x6 w6 where
    r6: "string_field b obj ''filters'' w5 = (Inr x6, w6)" and g6: "grows w5 w6"
    and c6: "copied_field c_str obj ''filters'' x6 (heap w5) (heap w6)" by blast
  have g02: "grows w w2" using g1 g2 by (rule grows_trans)
  have g03: "grows w w3" using g02 g3 by (rule grows_trans)
  have g04: "grows w w4" using g03 g4 by (rule grows_trans)
  have g05: "grows w w5" using g04 g5 by (rule grows_trans)
  have g06: "grows w w6" using g05 g6 by (rule grows_trans)
  have g56: "grows w5 w6" by (rule g6)
  have g46: "grows w4 w6" using g5 g6 by (rule grows_trans)
  have g36: "grows w3 w6" using g4 g46 by (rule grows_trans)
  have g26: "grows w2 w6" using g3 g36 by (rule grows_trans)
  have g16: "grows w1 w6" using g2 g26 by (rule grows_trans)
  have p6: "pending w6 = None" using g6 by (simp add: grows_def)
  have g66: "grows w6 w6" using p6 by (rule grows_refl)
  have d1: "copied_field c_str obj ''platforms'' x1 (heap w) (heap w6)"
    using c1 g0 g16 by (rule copied_field_lift)
  have d2: "copied_field c_str obj ''outputDir'' x2 (heap w) (heap w6)"
    using c2 g1 g26 by (rule copied_field_lift)
  have d4: "copied_field c_str obj ''strategy'' x4 (heap w) (heap w6)"
    using c4 g03 g46 by (rule copied_field_lift)
  have d6: "copied_field c_str obj ''filters'' x6 (heap w) (heap w6)"
    using c6 g05 g66 by (rule copied_field_lift)
  from r1 r2 r3 r4 r5 r6 g06 d1 d2 d4 d6 show ?thesis by blast
qed


lemma Int32Value_number: "IsNumber v \<Longrightarrow> \<exists>i. Int32Value b v w = (Inr i, w)"
  by (cases v) (simp_all add: Int32Value_def ret_def)

lemma call_bulk_clone_then_free:
  fixes eng :: "'e engine" and w6 :: "'e world"
  shows "requests_passed (drop n (trace w6)) = [] \<Longrightarrow> n \<le> length (trace w6) \<Longrightarrow>
         requests_passed (drop n (trace (snd (seq (call_bulk_clone eng clientID request)
            (free_request_strings eng p od st fl) w6)))) = [(request, heap w6)]"
proof -
  assume l: "requests_passed (drop n (trace w6)) = []" and n: "n \<le> length (trace w6)"
  obtain result e' where
    c: "gzh_node_bulk_clone eng (engine_state w6) (heap w6) clientID request = (result, e')"
    by (cases "gzh_node_bulk_clone eng (engine_state w6) (heap w6) clientID request")
  show ?thesis
    using c l n
    by (cases result)
       (auto simp: seq_def call_bulk_clone_def free_request_strings_trace emit_def
          requests_passed_append requests_passed_Cons requests_passed_Nil requests_passed_Free)
qed

subsection \<open>The strings of the request: allocated, freed\<close>

lemma allocated_append: "allocated (xs @ ys) = allocated xs @ allocated ys"
  by (simp add: allocated_def)

lemma freed_append: "freed (xs @ ys) = freed xs @ freed ys"
  by (simp add: freed_def)

lemma allocated_Cons: "allocated (ev # evs) = allocated_of ev @ allocated evs"
  by (simp add: allocated_def)

lemma freed_Cons: "freed (ev # evs) = freed_of ev @ freed evs"
  by (simp add: freed_def)

lemma allocated_Nil: "allocated [] = []"
  by (simp add: allocated_def)

lemma freed_Nil: "freed [] = []"
  by (simp add: freed_def)

lemma freed_Free: "freed (map Free as) = as"
  by (induction as) (simp_all add: freed_def)

lemma allocated_Free: "allocated (map Free as) = []"
  by (induction as) (simp_all add: allocated_def)

lemmas heap_event_simps =
  allocated_append freed_append allocated_Cons freed_Cons allocated_Nil freed_Nil
  freed_Free allocated_Free requests_passed_append requests_passed_Cons requests_passed_Nil
  requests_passed_Free

lemma frees_step:
  assumes m: "behaves m (allocates A)"
      and f: "\<And>x. behaves (f x) (frees_after_call (as @ A x))"
  shows "behaves (seq m f) (frees_after_call as)"
proof (rule behavesI)
  fix w
  from m obtain evs1 where t1: "trace (snd (m w)) = trace w @ evs1"
    and a1: "allocates A (fst (m w)) evs1"
    unfolding behaves_def by blast
  show "\<exists>evs. trace (snd (seq m f w)) = trace w @ evs \<and> frees_after_call as (fst (seq m f w)) evs"
  proof (cases "m w")
    case (Pair r w1)
    show ?thesis
    proof (cases r)
      case (Inl e)
      with Pair t1 a1 show ?thesis
        by (auto simp: seq_def allocates_def frees_after_call_def)
    next
      case (Inr x)
      from f [of x] obtain evs2 where t2: "trace (snd (f x w1)) = trace w1 @ evs2"
        and q2: "frees_after_call (as @ A x) (fst (f x w1)) evs2"
        unfolding behaves_def by blast
      from Pair Inr t1 a1 t2 q2 show ?thesis
        by (auto simp: seq_def allocates_def frees_after_call_def heap_event_simps)
    qed
  qed
qed

lemma allocates_string_field:
  "behaves (string_field b obj k) (allocates (\<lambda>p. set_pointers [p]))"
  by (rule behavesI)
     (auto simp: string_field_def seq_def Has_def Get_def napi_fail_def Utf8Value_def ret_def
        strdup_def Let_def emit_def allocates_def set_pointers_def heap_event_simps
        split: build.splits napi_value.splits)

lemma allocates_int32_field: "behaves (int32_field b obj k) (allocates (\<lambda>_. []))"
  by (rule behavesI)
     (auto simp: int32_field_def seq_def Has_def Get_def napi_fail_def Int32Value_def ret_def
        emit_def allocates_def heap_event_simps
        split: build.splits napi_value.splits)

lemma allocates_bool_field: "behaves (bool_field b obj k) (allocates (\<lambda>_. []))"
  by (rule behavesI)
     (auto simp: bool_field_def seq_def Has_def Get_def napi_fail_def BooleanValue_def ret_def
        emit_def allocates_def heap_event_simps
        split: build.splits napi_value.splits)

lemma allocates_Int32Value: "behaves (Int32Value b v) (allocates (\<lambda>_. []))"
  by (rule behavesI)
     (auto simp: napi_fail_def Int32Value_def ret_def allocates_def heap_event_simps
        split: build.splits napi_value.splits)

lemma frees_local:
  assumes "behaves m local_exit"
  shows "behaves m (frees_after_call as)"
proof (rule behavesI)
  fix w
  from assms obtain evs where "trace (snd (m w)) = trace w @ evs" and "engine_calls evs = []"
    unfolding behaves_def local_exit_def by blast
  then show "\<exists>evs. trace (snd (m w)) = trace w @ evs \<and> frees_after_call as (fst (m w)) evs"
    by (auto simp: frees_after_call_def local_requests_passed)
qed

lemma frees_bulk_clone_tail:
  fixes eng :: "'e engine"
  shows "behaves (seq (call_bulk_clone eng clientID request)
                   (free_request_strings eng p od st fl))
           (frees_after_call (set_pointers [p] @ set_pointers [od] @ set_pointers [st]
              @ set_pointers [fl]))"
proof (rule behavesI)
  fix w :: "'e world"
  let ?m = "seq (call_bulk_clone eng clientID request) (free_request_strings eng p od st fl)"
  let ?as = "set_pointers [p] @ set_pointers [od] @ set_pointers [st] @ set_pointers [fl]"
  obtain result e' where
    c: "gzh_node_bulk_clone eng (engine_state w) (heap w) clientID request = (result, e')"
    by (cases "gzh_node_bulk_clone eng (engine_state w) (heap w) clientID request")
  have s: "set_pointers [p, od, st, fl] = ?as"
    by (simp add: set_pointers_def)
  show "\<exists>evs. trace (snd (?m w)) = trace w @ evs \<and> frees_after_call ?as (fst (?m w)) evs"
    using c
    by (cases result)
       (auto simp: seq_def call_bulk_clone_def free_request_strings_trace emit_def s
          frees_after_call_def heap_event_simps)
qed

lemma frees_BulkClone: "behaves (BulkClone b eng info) (frees_after_call [])"
  unfolding BulkClone_def free_request_strings_def [symmetric]
proof (rule behaves_if)
  show "behaves (seq (ThrowAsJavaScriptException b ''Expected client ID and request object'')
                  (\<lambda>_. ret Null)) (frees_after_call [])"
    by (intro frees_local local_intros)
next
  show "behaves
     (seq (Int32Value b (info ! 0)) (\<lambda>clientID.
      seq (string_field b (info ! 1) ''platforms'') (\<lambda>p.
      seq (string_field b (info ! 1) ''outputDir'') (\<lambda>od.
      seq (int32_field b (info ! 1) ''concurrency'') (\<lambda>c.
      seq (string_field b (info ! 1) ''strategy'') (\<lambda>st.
      seq (bool_field b (info ! 1) ''includePrivate'') (\<lambda>ip.
      seq (string_field b (info ! 1) ''filters'') (\<lambda>fl.
      seq (call_bulk_clone eng clientID
             \<lparr>platforms_json = p, output_dir = od, concurrency = c,
              strategy = st, include_private = ip, filters_json = fl\<rparr>)
        (free_request_strings eng p od st fl))))))))) (frees_after_call [])"
    apply (rule frees_step [OF allocates_Int32Value])
    apply (rule frees_step [OF allocates_string_field])
    apply (rule frees_step [OF allocates_string_field])
    apply (rule frees_step [OF allocates_int32_field])
    apply (rule frees_step [OF allocates_string_field])
    apply (rule frees_step [OF allocates_bool_field])
    apply (rule frees_step [OF allocates_string_field])
    apply (simp only: append_Nil append_Nil2 append_assoc frees_bulk_clone_tail)
    done
qed


lemma reach_step:
  assumes m: "behaves m succeeds" and f: "\<And>x. behaves (f x) reaches_engine"
  shows "behaves (seq m f) reaches_engine"
proof (rule behavesI)
  fix w
  from m obtain evs1 x where t1: "trace (snd (m w)) = trace w @ evs1" and r1: "fst (m w) = Inr x"
    unfolding behaves_def succeeds_def by blast
  from f [of x] obtain evs2 where t2: "trace (snd (f x (snd (m w)))) = trace (snd (m w)) @ evs2"
    and q2: "reaches_engine (fst (f x (snd (m w)))) evs2"
    unfolding behaves_def by blast
  have e: "seq m f w = f x (snd (m w))"
    using r1 by (cases "m w") (simp add: seq_def)
  show "\<exists>evs. trace (snd (seq m f w)) = trace w @ evs \<and> reaches_engine (fst (seq m f w)) evs"
    unfolding e using t1 t2 q2
    by (auto simp: reaches_engine_def requests_passed_append)
qed

lemma succeeds_string_field:
  "behaves (string_field NAPI_DISABLE_CPP_EXCEPTIONS obj k) succeeds"
  by (rule behavesI)
     (auto simp: string_field_def seq_def Has_def Get_def napi_fail_def Utf8Value_def ret_def
        strdup_def Let_def emit_def succeeds_def split: napi_value.splits)

lemma succeeds_int32_field:
  "behaves (int32_field NAPI_DISABLE_CPP_EXCEPTIONS obj k) succeeds"
  by (rule behavesI)
     (auto simp: int32_field_def seq_def Has_def Get_def napi_fail_def Int32Value_def ret_def
        emit_def succeeds_def split: napi_value.splits)

lemma succeeds_bool_field:
  "behaves (bool_field NAPI_DISABLE_CPP_EXCEPTIONS obj k) succeeds"
  by (rule behavesI)
     (auto simp: bool_field_def seq_def Has_def Get_def napi_fail_def BooleanValue_def ret_def
        emit_def succeeds_def split: napi_value.splits)

lemma succeeds_Int32Value:
  "behaves (Int32Value NAPI_DISABLE_CPP_EXCEPTIONS v) succeeds"
  by (rule behavesI)
     (auto simp: napi_fail_def Int32Value_def ret_def succeeds_def split: napi_value.splits)

lemma reaches_bulk_clone_tail:
  fixes eng :: "'e engine"
  shows "behaves (seq (call_bulk_clone eng clientID request)
                   (free_request_strings eng p od st fl)) reaches_engine"
proof (rule behavesI)
  fix w :: "'e world"
  let ?m = "seq (call_bulk_clone eng clientID request) (free_request_strings eng p od st fl)"
  obtain result e' where
    c: "gzh_node_bulk_clone eng (engine_state w) (heap w) clientID request = (result, e')"
    by (cases "gzh_node_bulk_clone eng (engine_state w) (heap w) clientID request")
  show "\<exists>evs. trace (snd (?m w)) = trace w @ evs \<and> reaches_engine (fst (?m w)) evs"
    using c
    by (cases result)
       (auto simp: seq_def call_bulk_clone_def free_request_strings_trace emit_def
          reaches_engine_def heap_event_simps)
qed

lemma reaches_BulkClone:
  assumes "2 \<le> length info \<and> IsNumber (info ! 0) \<and> IsObject (info ! 1)"
  shows "behaves (BulkClone NAPI_DISABLE_CPP_EXCEPTIONS eng info) reaches_engine"
proof -
  from assms have v: "\<not> (length info < 2 \<or> \<not> IsNumber (info ! 0) \<or> \<not> IsObject (info ! 1))"
    by auto
  show ?thesis
    unfolding BulkClone_def free_request_strings_def [symmetric] if_not_P [OF v]
    by (intro reach_step succeeds_Int32Value succeeds_string_field succeeds_int32_field
          succeeds_bool_field reaches_bulk_clone_tail)
qed

lemma BulkClone_frees_when_engine_called:
  assumes "requests_passed (new_events w (snd (BulkClone b eng info w))) \<noteq> []"
  shows "freed (new_events w (snd (BulkClone b eng info w)))
           = allocated (new_events w (snd (BulkClone b eng info w)))"
proof -
  from frees_BulkClone [of b eng info] obtain evs where
    "trace (snd (BulkClone b eng info w)) = trace w @ evs"
    and "frees_after_call [] (fst (BulkClone b eng info w)) evs"
    unfolding behaves_def by blast
  with assms show ?thesis
    by (simp add: new_events_append frees_after_call_def)
qed

lemma BulkClone_frees_without_cpp_exceptions:
  assumes "2 \<le> length info \<and> IsNumber (info ! 0) \<and> IsObject (info ! 1)"
  shows "freed (new_events w (snd (BulkClone NAPI_DISABLE_CPP_EXCEPTIONS eng info w)))
           = allocated (new_events w (snd (BulkClone NAPI_DISABLE_CPP_EXCEPTIONS eng info w)))"
proof (rule BulkClone_frees_when_engine_called)
  from reaches_BulkClone [OF assms, of eng] obtain evs where
    "trace (snd (BulkClone NAPI_DISABLE_CPP_EXCEPTIONS eng info w)) = trace w @ evs"
    and "reaches_engine (fst (BulkClone NAPI_DISABLE_CPP_EXCEPTIONS eng info w)) evs"
    unfolding behaves_def by blast
  then show "requests_passed (new_events w (snd (BulkClone NAPI_DISABLE_CPP_EXCEPTIONS eng info w))) \<noteq> []"
    by (simp add: new_events_append reaches_engine_def)
qed

text \<open>
  Together: in every call of bulk clone in which the engine is given the request, the
  blocks the callback frees are the blocks it allocated, in the same order, whatever the
  engine answered; and in a build without C++ exceptions every call that passes the
  validation of the handle and the request gives the engine the request, also after a
  failed field conversion.
\<close>

lemma BulkClone_frees_on_straight_path:
  fixes eng :: "'e engine" and w :: "'e world"
  shows
  "(requests_passed (new_events w (snd (BulkClone b eng info w))) \<noteq> [] \<longrightarrow>
      freed (new_events w (snd (BulkClone b eng info w)))
        = allocated (new_events w (snd (BulkClone b eng info w))))
   \<and> (2 \<le> length info \<and> IsNumber (info ! 0) \<and> IsObject (info ! 1) \<longrightarrow>
        requests_passed (new_events w
          (snd (BulkClone NAPI_DISABLE_CPP_EXCEPTIONS eng info w))) \<noteq> []
      \<and> freed (new_events w (snd (BulkClone NAPI_DISABLE_CPP_EXCEPTIONS eng info w)))
          = allocated (new_events w (snd (BulkClone NAPI_DISABLE_CPP_EXCEPTIONS eng info w))))"
proof (intro conjI impI)
  assume "requests_passed (new_events w (snd (BulkClone b eng info w))) \<noteq> []"
  then show "freed (new_events w (snd (BulkClone b eng info w)))
        = allocated (new_events w (snd (BulkClone b eng info w)))"
    by (rule BulkClone_frees_when_engine_called)
next
  assume v: "2 \<le> length info \<and> IsNumber (info ! 0) \<and> IsObject (info ! 1)"
  from reaches_BulkClone [OF v, of eng] obtain evs where
    "trace (snd (BulkClone NAPI_DISABLE_CPP_EXCEPTIONS eng info w)) = trace w @ evs"
    and "reaches_engine (fst (BulkClone NAPI_DISABLE_CPP_EXCEPTIONS eng info w)) evs"
    unfolding behaves_def by blast
  then show "requests_passed (new_events w
          (snd (BulkClone NAPI_DISABLE_CPP_EXCEPTIONS eng info w))) \<noteq> []"
    by (simp add: new_events_append reaches_engine_def)
next
  assume v: "2 \<le> length info \<and> IsNumber (info ! 0) \<and> IsObject (info ! 1)"
  then show "freed (new_events w (snd (BulkClone NAPI_DISABLE_CPP_EXCEPTIONS eng info w)))
          = allocated (new_events w (snd (BulkClone NAPI_DISABLE_CPP_EXCEPTIONS eng info w)))"
    by (rule BulkClone_frees_without_cpp_exceptions)
qed

subsection \<open>Unfolding a concrete run of bulk clone\<close>

lemmas run_simps =
  BulkClone_def seq_def ret_def Int32Value_def string_field_def int32_field_def
  bool_field_def Has_def Get_def has_property_def get_property_def Utf8Value_def
  BooleanValue_def napi_fail_def strdup_def Let_def emit_def call_bulk_clone_def
  fake_engine_def cloned_3_def free_if_set_def translate_and_release_def world0_def
  new_events_def fresh_addr_def c_str_def trunc_toward_zero_def

section \<open>The claims\<close>

subsection \<open>C1: one release per envelope\<close>



subsection \<open>C2: the strings bulk clone allocates for the request\<close>

text \<open>
  C2 says that every string bulk clone allocates for the request is freed by the same
  call on every way out, also when a failure follows an allocation. The four frees are
  plain statements after the engine call (\<open>BulkClone_frees_on_straight_path\<close> covers
  every call that gets there). In a build with C++ exceptions a field conversion that
  fails throws, and the exception leaves the callback between the allocations and the
  frees. The run below is bulk clone with the handle 1 and a request whose \<open>platforms\<close>
  is the string \<open>[]\<close> and whose \<open>outputDir\<close> is the number 5: the copy of \<open>platforms\<close>
  is allocated at address 1, the conversion of \<open>outputDir\<close> throws, the engine is not
  called, nothing is freed, and the block is still live when the callback is left.
\<close>

theorem BulkClone_abandons_string_when_conversion_throws:
  "BulkClone NAPI_CPP_EXCEPTIONS (fake_engine 1 cloned_3)
     [Number (Finite 1), Object [(''platforms'', String ''[]''), (''outputDir'', Number (Finite 5))]]
     world0
   = (Inl (Cpp_exception ''A string was expected''),
      \<lparr>heap = [(1, ''[]'')], pending = None,
       trace = [Get_property ''platforms'', Strdup 1 ''[]'', Get_property ''outputDir''],
       engine_state = 0\<rparr>)
   \<and> allocated [Get_property ''platforms'', Strdup 1 ''[]'', Get_property ''outputDir''] = [1]
   \<and> freed [Get_property ''platforms'', Strdup 1 ''[]'', Get_property ''outputDir''] = []"
  by (simp add: run_simps allocated_def freed_def)

theorem BulkClone_abandons_string_when_conversion_throws_witness:
  "heap (snd (BulkClone NAPI_CPP_EXCEPTIONS (fake_engine 1 cloned_3)
     [Number (Finite 1), Object [(''platforms'', String ''[]''), (''outputDir'', Number (Finite 5))]]
     world0)) = [(1, ''[]'')]
   \<and> heap world0 = []"
  using BulkClone_abandons_string_when_conversion_throws
  by (simp add: world0_def)

text \<open>
  The same call in a build without C++ exceptions goes on after the failed conversion,
  with an exception pending and an empty string for \<open>outputDir\<close>; it calls the engine and
  frees both blocks.
\<close>

lemma BulkClone_same_call_without_cpp_exceptions:
  "allocated (new_events world0 (snd (BulkClone NAPI_DISABLE_CPP_EXCEPTIONS
        (fake_engine 1 cloned_3)
        [Number (Finite 1),
         Object [(''platforms'', String ''[]''), (''outputDir'', Number (Finite 5))]] world0)))
     = [1, 2]
   \<and> freed (new_events world0 (snd (BulkClone NAPI_DISABLE_CPP_EXCEPTIONS
        (fake_engine 1 cloned_3)
        [Number (Finite 1),
         Object [(''platforms'', String ''[]''), (''outputDir'', Number (Finite 5))]] world0)))
     = [1, 2]"
  by (simp add: run_simps allocated_def freed_def)

subsection \<open>C3: the translated host value\<close>



subsection \<open>C4: bulk clone rejects ill-formed arguments before any effect\<close>

text \<open>
  C4. When bulk clone is called with fewer than two arguments, or with a handle that is
  not a number, or with a request that is not an object, it throws the type error
  ``Expected client ID and request object'' and returns null at once, so the host sees
  that exception: the trace, the heap and the state of the engine are what they were,
  so no string was allocated and the engine was not called. (The host calls a callback
  with no exception pending.)
\<close>

theorem BulkClone_rejects_before_any_effect:
  assumes "length info < 2 \<or> \<not> IsNumber (info ! 0) \<or> \<not> IsObject (info ! 1)"
      and "pending w = None"
  shows "BulkClone b eng info w =
           (Inr Null, w\<lparr>pending := Some ''Expected client ID and request object''\<rparr>)
         \<and> host_sees (BulkClone b eng info w) = Throws ''Expected client ID and request object''
         \<and> new_events w (snd (BulkClone b eng info w)) = []
         \<and> heap (snd (BulkClone b eng info w)) = heap w
         \<and> engine_state (snd (BulkClone b eng info w)) = engine_state w"
  using assms
  by (simp add: BulkClone_def seq_def ret_def ThrowAsJavaScriptException_def new_events_def
        host_sees_def)

theorem BulkClone_rejects_before_any_effect_witness:
  "BulkClone NAPI_DISABLE_CPP_EXCEPTIONS (fake_engine 1 cloned_3) [Number (Finite 1)] world0 =
     (Inr Null, world0\<lparr>pending := Some ''Expected client ID and request object''\<rparr>)
   \<and> trace (snd (BulkClone NAPI_DISABLE_CPP_EXCEPTIONS (fake_engine 1 cloned_3)
                   [Number (Finite 1)] world0)) = []"
  using BulkClone_rejects_before_any_effect
          [of "[Number (Finite 1)]" world0 NAPI_DISABLE_CPP_EXCEPTIONS "fake_engine 1 cloned_3"]
  by (simp add: world0_def new_events_def)

subsection \<open>C5: the strings of the request the engine is given\<close>

text \<open>
  C5, as amended. Bulk clone is the operation that takes a request record. Let it be
  called with a number, and an object whose fields have the types of the data model.
  Then the engine is called once, and in the request it is given, read in the heap of
  that moment: each of the four string fields (platforms, output directory, strategy,
  filters) that the host object has is a pointer to a block that was not live when the
  callback was entered and that holds the host string up to its first byte 0, which is
  the whole string when it contains no byte 0; each string field the object does not
  have is the null pointer. (A field of another type makes its conversion fail; what
  the engine is given after that, if anything, depends on the build.)
\<close>

theorem BulkClone_request_strings:
  fixes eng :: "'e engine" and w :: "'e world"
  assumes v: "2 \<le> length info \<and> IsNumber (info ! 0) \<and> IsObject (info ! 1)"
      and t: "well_typed_request (info ! 1)"
      and p: "pending w = None"
  shows "(\<exists>request h.
            requests_passed (new_events w (snd (BulkClone b eng info w))) = [(request, h)]
          \<and> copied_field c_str (info ! 1) ''platforms'' (platforms_json request) (heap w) h
          \<and> copied_field c_str (info ! 1) ''outputDir'' (output_dir request) (heap w) h
          \<and> copied_field c_str (info ! 1) ''strategy'' (strategy request) (heap w) h
          \<and> copied_field c_str (info ! 1) ''filters'' (filters_json request) (heap w) h)
       \<and> (CHR 0x00 \<notin> set s \<longrightarrow> c_str s = s)"
proof (intro conjI impI)
  from v obtain clientID where r0: "Int32Value b (info ! 0) w = (Inr clientID, w)"
    using Int32Value_number by blast
  from typed_request_fields [OF p t, of b] obtain x1 x2 x3 x4 x5 x6 w1 w2 w3 w4 w5 w6 where
    r1: "string_field b (info ! 1) ''platforms'' w = (Inr x1, w1)"
    and r2: "string_field b (info ! 1) ''outputDir'' w1 = (Inr x2, w2)"
    and r3: "int32_field b (info ! 1) ''concurrency'' w2 = (Inr x3, w3)"
    and r4: "string_field b (info ! 1) ''strategy'' w3 = (Inr x4, w4)"
    and r5: "bool_field b (info ! 1) ''includePrivate'' w4 = (Inr x5, w5)"
    and r6: "string_field b (info ! 1) ''filters'' w5 = (Inr x6, w6)"
    and g: "grows w w6"
    and d1: "copied_field c_str (info ! 1) ''platforms'' x1 (heap w) (heap w6)"
    and d2: "copied_field c_str (info ! 1) ''outputDir'' x2 (heap w) (heap w6)"
    and d4: "copied_field c_str (info ! 1) ''strategy'' x4 (heap w) (heap w6)"
    and d6: "copied_field c_str (info ! 1) ''filters'' x6 (heap w) (heap w6)"
    by blast
  let ?request = "\<lparr>platforms_json = x1, output_dir = x2, concurrency = x3,
                   strategy = x4, include_private = x5, filters_json = x6\<rparr>"
  have run: "BulkClone b eng info w =
               seq (call_bulk_clone eng clientID ?request)
                 (free_request_strings eng x1 x2 x4 x6) w6"
    unfolding BulkClone_def free_request_strings_def [symmetric]
    using v by (simp del: One_nat_def
          add: seq_def [of "Int32Value _ _"] seq_def [of "string_field _ _ _"]
          seq_def [of "int32_field _ _ _"] seq_def [of "bool_field _ _ _"] r0 r1 r2 r3 r4 r5 r6)
  from g obtain evs where t6: "trace w6 = trace w @ evs" and l6: "engine_calls evs = []"
    by (auto simp: grows_def)
  have "requests_passed (new_events w (snd (BulkClone b eng info w))) = [(?request, heap w6)]"
    unfolding run new_events_def
    by (rule call_bulk_clone_then_free) (simp_all add: t6 l6 local_requests_passed)
  with d1 d2 d4 d6 show "\<exists>request h.
            requests_passed (new_events w (snd (BulkClone b eng info w))) = [(request, h)]
          \<and> copied_field c_str (info ! 1) ''platforms'' (platforms_json request) (heap w) h
          \<and> copied_field c_str (info ! 1) ''outputDir'' (output_dir request) (heap w) h
          \<and> copied_field c_str (info ! 1) ''strategy'' (strategy request) (heap w) h
          \<and> copied_field c_str (info ! 1) ''filters'' (filters_json request) (heap w) h"
    by (intro exI [of _ ?request] exI [of _ "heap w6"]) simp
next
  assume "CHR 0x00 \<notin> set s"
  then show "c_str s = s" by (rule c_str_no_NUL)
qed

theorem BulkClone_request_strings_witness:
  "well_typed_request (Object [(''platforms'', String ''[]''), (''outputDir'', String ''/tmp/x''),
       (''concurrency'', Number (Finite 4)), (''includePrivate'', Boolean False)])
   \<and> contents_passed platforms_json (new_events world0
        (snd (BulkClone NAPI_CPP_EXCEPTIONS (fake_engine 1 cloned_3)
          [Number (Finite 1),
           Object [(''platforms'', String ''[]''), (''outputDir'', String ''/tmp/x''),
                   (''concurrency'', Number (Finite 4)), (''includePrivate'', Boolean False)]]
          world0))) = [Some ''[]'']
   \<and> contents_passed strategy (new_events world0
        (snd (BulkClone NAPI_CPP_EXCEPTIONS (fake_engine 1 cloned_3)
          [Number (Finite 1),
           Object [(''platforms'', String ''[]''), (''outputDir'', String ''/tmp/x''),
                   (''concurrency'', Number (Finite 4)), (''includePrivate'', Boolean False)]]
          world0))) = [None]"
  using BulkClone_request_strings
          [where info = "[Number (Finite 1),
              Object [(''platforms'', String ''[]''), (''outputDir'', String ''/tmp/x''),
                      (''concurrency'', Number (Finite 4)), (''includePrivate'', Boolean False)]]"
             and w = world0 and b = NAPI_CPP_EXCEPTIONS and eng = "fake_engine 1 cloned_3"
             and s = "''[]''"]
  by (simp add: run_simps well_typed_request_def field_typed_def contents_passed_def
        requests_passed_def engine_reads_def)

text \<open>
  C5 as stated (``content equals the input string'') fails for a string that contains a
  byte 0: \<open>strdup(platforms.c_str())\<close> copies the C string, which ends at the first
  byte 0. The host string of the three bytes \<open>a\<close>, 0, \<open>b\<close> reaches the engine as \<open>a\<close>.
\<close>

theorem BulkClone_request_strings_counterexample:
  "contents_passed platforms_json (new_events world0
        (snd (BulkClone NAPI_CPP_EXCEPTIONS (fake_engine 1 cloned_3)
          [Number (Finite 1), Object [(''platforms'', String [CHR ''a'', CHR 0x00, CHR ''b''])]]
          world0))) = [Some ''a'']
   \<and> ''a'' \<noteq> [CHR ''a'', CHR 0x00, CHR ''b'']"
  by (simp add: run_simps contents_passed_def requests_passed_def engine_reads_def)

subsection \<open>C6: create session\<close>



subsection \<open>C7: the configuration translator\<close>

text \<open>
  C7. When create session gets no argument, or an argument that is not an object, the
  engine receives the null configuration pointer. When it gets an object, the engine
  receives the record \<open>ObjectToClientConfig\<close> produced from it. In every record the
  translator produces, a string field (plugin directory, log level, log file) whose
  property the object does not have is the null pointer, and a scalar field (timeout,
  retry count, plugin flag) whose property the object does not have is 0. Every
  property the translator reads is one the object has: presence is tested before the
  read. From a well-typed object the translator does produce a record.
\<close>

theorem ObjectToClientConfig_contract:
  fixes eng :: "'e engine" and w :: "'e world"
  shows
  "(length info = 0 \<or> \<not> IsObject (info ! 0) \<longrightarrow>
      configs_passed (new_events w (snd (CreateClient b eng info w))) = [None])
   \<and> (0 < length info \<and> IsObject (info ! 0)
        \<and> ObjectToClientConfig b (info ! 0) w = (Inr c, w1) \<longrightarrow>
      configs_passed (new_events w (snd (CreateClient b eng info w))) = [Some c])
   \<and> (ObjectToClientConfig b obj w = (Inr c', w') \<longrightarrow>
        (\<not> has_property obj ''timeout'' \<longrightarrow> timeout c' = 0)
      \<and> (\<not> has_property obj ''retryCount'' \<longrightarrow> retry_count c' = 0)
      \<and> (\<not> has_property obj ''enablePlugins'' \<longrightarrow> enable_plugins c' = 0)
      \<and> (\<not> has_property obj ''pluginDir'' \<longrightarrow> plugin_dir c' = None)
      \<and> (\<not> has_property obj ''logLevel'' \<longrightarrow> log_level c' = None)
      \<and> (\<not> has_property obj ''logFile'' \<longrightarrow> log_file c' = None))
   \<and> list_all (has_property obj)
        (properties_read (new_events w (snd (ObjectToClientConfig b obj w))))
   \<and> (pending w = None \<and> well_typed_config obj \<longrightarrow>
        (\<exists>c w'. ObjectToClientConfig b obj w = (Inr c, w')))"
proof (intro conjI impI)
  assume "length info = 0 \<or> \<not> IsObject (info ! 0)"
  then show "configs_passed (new_events w (snd (CreateClient b eng info w))) = [None]"
    by (rule CreateClient_null_config)
next
  assume "0 < length info \<and> IsObject (info ! 0)
        \<and> ObjectToClientConfig b (info ! 0) w = (Inr c, w1)"
  then show "configs_passed (new_events w (snd (CreateClient b eng info w))) = [Some c]"
    using CreateClient_translated_config by blast
next
  from reads_ObjectToClientConfig [of b obj] obtain evs where
    "trace (snd (ObjectToClientConfig b obj w)) = trace w @ evs"
    and "reads_only obj (fst (ObjectToClientConfig b obj w)) evs"
    unfolding behaves_def by blast
  then show "list_all (has_property obj)
        (properties_read (new_events w (snd (ObjectToClientConfig b obj w))))"
    by (simp add: new_events_append reads_only_def)
next
  assume "pending w = None \<and> well_typed_config obj"
  then show "\<exists>c w'. ObjectToClientConfig b obj w = (Inr c, w')"
    using typed_ObjectToClientConfig by blast
qed (use ObjectToClientConfig_absent in blast)+

theorem ObjectToClientConfig_contract_witness:
  "configs_passed (new_events world0
      (snd (CreateClient NAPI_CPP_EXCEPTIONS (fake_engine 7 None) [] world0))) = [None]
   \<and> ObjectToClientConfig NAPI_CPP_EXCEPTIONS
        (Object [(''timeout'', Number (Finite 5000)), (''retryCount'', Number (Finite 2))]) world0
     = (Inr \<lparr>timeout = 5000, retry_count = 2, enable_plugins = 0,
              plugin_dir = None, log_level = None, log_file = None\<rparr>,
        world0\<lparr>trace := [New_config, Get_property ''timeout'', Get_property ''retryCount'']\<rparr>)
   \<and> configs_passed (new_events world0
      (snd (CreateClient NAPI_CPP_EXCEPTIONS (fake_engine 7 None)
         [Object [(''timeout'', Number (Finite 5000)), (''retryCount'', Number (Finite 2))]] world0)))
     = [Some \<lparr>timeout = 5000, retry_count = 2, enable_plugins = 0,
              plugin_dir = None, log_level = None, log_file = None\<rparr>]
   \<and> \<not> has_property
         (Object [(''timeout'', Number (Finite 5000)), (''retryCount'', Number (Finite 2))])
         ''pluginDir''
   \<and> well_typed_config
         (Object [(''timeout'', Number (Finite 5000)), (''retryCount'', Number (Finite 2))])
   \<and> properties_read (new_events world0
      (snd (ObjectToClientConfig NAPI_CPP_EXCEPTIONS
         (Object [(''timeout'', Number (Finite 5000)), (''retryCount'', Number (Finite 2))]) world0)))
     = [''timeout'', ''retryCount'']"
  using ObjectToClientConfig_contract
          [where info = "[]" and w = world0 and b = NAPI_CPP_EXCEPTIONS
             and eng = "fake_engine 7 None"]
        ObjectToClientConfig_contract
          [where info = "[Object [(''timeout'', Number (Finite 5000)),
                                  (''retryCount'', Number (Finite 2))]]"
             and obj = "Object [(''timeout'', Number (Finite 5000)),
                                (''retryCount'', Number (Finite 2))]"
             and w = world0 and b = NAPI_CPP_EXCEPTIONS and eng = "fake_engine 7 None"
             and c = "\<lparr>timeout = 5000, retry_count = 2, enable_plugins = 0,
                      plugin_dir = None, log_level = None, log_file = None\<rparr>"
             and c' = "\<lparr>timeout = 5000, retry_count = 2, enable_plugins = 0,
                      plugin_dir = None, log_level = None, log_file = None\<rparr>"
             and ?w1.0 = "world0\<lparr>trace := [New_config, Get_property ''timeout'',
                                              Get_property ''retryCount'']\<rparr>"
             and w' = "world0\<lparr>trace := [New_config, Get_property ''timeout'',
                                              Get_property ''retryCount'']\<rparr>"]
  by (simp add: CreateClient_def ObjectToClientConfig_def FreeClientConfig_def seq_def ret_def
        int64_field_def int32_field_def bool_field_def string_field_def Has_def Get_def
        has_property_def get_property_def Int64Value_def Int32Value_def
        call_client_create_def fake_engine_def free_if_set_def emit_def world0_def
        new_events_def configs_passed_def properties_read_def trunc_toward_zero_def
        Number_New_def well_typed_config_def field_typed_def)

subsection \<open>C8: the timeout of execute plugin\<close>

text \<open>
  C8, as amended. When execute plugin is called with exactly the four mandatory
  arguments, the engine receives the timeout 30. When a fifth argument is given and is a
  number, the engine receives that number converted to a C \<open>int\<close> by
  \<open>Int32Value()\<close>; the conversion gives the number itself for every integer from
  \<open>- 2 ^ 31\<close> to \<open>2 ^ 31 - 1\<close>.
\<close>

theorem ExecutePlugin_timeout:
  "timeouts_passed (new_events w
      (snd (ExecutePlugin b eng [Number h, String p, String m, String j] w))) = [30]
   \<and> timeouts_passed (new_events w
      (snd (ExecutePlugin b eng (Number h # String p # String m # String j # Number t # rest) w)))
     = [ToInt32 t]
   \<and> (- (2 ^ 31) \<le> i \<and> i < 2 ^ 31 \<longrightarrow> sint (ToInt32 (Finite (of_int i))) = i)"
proof (intro conjI impI)
  assume "- (2 ^ 31) \<le> i \<and> i < 2 ^ 31"
  then show "sint (ToInt32 (Finite (of_int i))) = i"
    by (simp only: ToInt32_integer)
qed (rule ExecutePlugin_default_timeout ExecutePlugin_explicit_timeout)+

theorem ExecutePlugin_timeout_witness:
  "map sint (timeouts_passed (new_events world0
      (snd (ExecutePlugin NAPI_CPP_EXCEPTIONS (fake_engine 1 cloned_3)
             [Number (Finite 1), String ''p'', String ''m'', String ''{}''] world0)))) = [30]
   \<and> map sint (timeouts_passed (new_events world0
      (snd (ExecutePlugin NAPI_CPP_EXCEPTIONS (fake_engine 1 cloned_3)
             [Number (Finite 1), String ''p'', String ''m'', String ''{}'', Number (Finite 60)]
             world0)))) = [60]
   \<and> - (2 ^ 31) \<le> (60::int) \<and> (60::int) < 2 ^ 31"
  using ExecutePlugin_timeout [of world0 NAPI_CPP_EXCEPTIONS "fake_engine 1 cloned_3"
          "Finite 1" "''p''" "''m''" "''{}''" "Finite 60" "[]" 60]
  by (simp add: trunc_toward_zero_def)

text \<open>
  C8 as stated (``when an explicit timeout is supplied, that value is passed'') fails
  outside the range of a C \<open>int\<close>: the timeout 4294967326 reaches the engine as 30.
\<close>

theorem ExecutePlugin_timeout_counterexample:
  "map sint (timeouts_passed (new_events world0
      (snd (ExecutePlugin NAPI_CPP_EXCEPTIONS (fake_engine 1 cloned_3)
             [Number (Finite 1), String ''p'', String ''m'', String ''{}'',
              Number (Finite 4294967326)] world0)))) = [30]
   \<and> map sint (timeouts_passed (new_events world0
      (snd (ExecutePlugin NAPI_CPP_EXCEPTIONS (fake_engine 1 cloned_3)
             [Number (Finite 1), String ''p'', String ''m'', String ''{}'',
              Number (Finite 4294967326)] world0)))) \<noteq> [4294967326]"
  by (simp add: ExecutePlugin_explicit_timeout trunc_toward_zero_def)

subsection \<open>C9: destroy session\<close>

text \<open>
  C9. For every number given as the handle, whatever the engine knows about it, destroy
  session makes exactly one call of the engine's destroy entry point, with the handle
  converted to a C int, and returns \<open>undefined\<close>: no error, no exception, no undefined
  behaviour in the bridge. Destroying the same handle a second time does the same again.
\<close>

theorem DestroyClient_one_call:
  "DestroyClient b eng (Number n # rest) w =
     (Inr Undefined,
      emit (Call_client_destroy (ToInt32 n))
        (w\<lparr>engine_state := gzh_node_client_destroy eng (engine_state w) (ToInt32 n)\<rparr>))
   \<and> new_events w (snd (DestroyClient b eng (Number n # rest) w)) = [Call_client_destroy (ToInt32 n)]
   \<and> new_events w (snd (seq (DestroyClient b eng (Number n # rest))
                           (\<lambda>_. DestroyClient b eng (Number n # rest)) w))
       = [Call_client_destroy (ToInt32 n), Call_client_destroy (ToInt32 n)]
   \<and> fst (seq (DestroyClient b eng (Number n # rest))
             (\<lambda>_. DestroyClient b eng (Number n # rest)) w) = Inr Undefined"
  by (simp add: DestroyClient_def seq_def ret_def Int32Value_def call_client_destroy_def
        emit_def new_events_def)

theorem DestroyClient_one_call_witness:
  "DestroyClient NAPI_CPP_EXCEPTIONS (fake_engine 1 None) [Number (Finite 77)] world0 =
     (Inr Undefined,
      \<lparr>heap = [], pending = None, trace = [Call_client_destroy 77], engine_state = 1\<rparr>)"
  using DestroyClient_one_call
          [THEN conjunct1, of NAPI_CPP_EXCEPTIONS "fake_engine 1 None" "Finite 77" "[]" world0]
  by (simp add: world0_def fake_engine_def emit_def trunc_toward_zero_def)

subsection \<open>C10: a null envelope pointer is dereferenced\<close>

text \<open>
  C10. None of the four envelope-returning callbacks tests the pointer the engine
  returns: the callback ends in a null dereference (undefined behaviour) if and only if
  an envelope-returning call of the engine answered with a null pointer during the call.
  So translation and release are defined exactly under the precondition that the engine
  never returns a null envelope.
\<close>

theorem null_envelope_is_dereferenced:
  assumes "f \<in> {BulkClone b eng, ListPlugins b eng, ExecutePlugin b eng, Health b eng}"
  shows "(fst (f info w) = Inl Null_dereference)
           = null_received (new_events w (snd (f info w)))"
proof -
  from assms have "behaves (f info) crash_iff_null"
    using crash_BulkClone crash_ListPlugins crash_ExecutePlugin crash_Health
    by auto
  then obtain evs where "trace (snd (f info w)) = trace w @ evs"
    and "crash_iff_null (fst (f info w)) evs"
    unfolding behaves_def by blast
  then show ?thesis
    by (simp add: new_events_append crash_iff_null_def)
qed

theorem null_envelope_is_dereferenced_witness:
  "fst (ListPlugins NAPI_DISABLE_CPP_EXCEPTIONS (fake_engine 1 None) [Number (Finite 1)] world0)
     = Inl Null_dereference
   \<and> null_received (new_events world0
        (snd (ListPlugins NAPI_DISABLE_CPP_EXCEPTIONS (fake_engine 1 None) [Number (Finite 1)] world0)))"
  using null_envelope_is_dereferenced [of "ListPlugins NAPI_DISABLE_CPP_EXCEPTIONS (fake_engine 1 None)"
          NAPI_DISABLE_CPP_EXCEPTIONS "fake_engine 1 None" "[Number (Finite 1)]" world0]
  by (simp add: ListPlugins_def seq_def ret_def Int32Value_def call_list_plugins_def
        fake_engine_def translate_and_release_def emit_def world0_def new_events_def
        null_received_def)

end
